theory Spec2Isabelle
  imports Main
begin

section \<open>Development session lifecycle of the Component class\<close>

text \<open>
  A shallow embedding of the dev-loop supervision code of \<^verbatim>\<open>Component\<close>
  (\<^verbatim>\<open>src/unnamed/part_004\<close>): the per-workspace state record
  \<^verbatim>\<open>ComponentDevState\<close>, the stop request made by \<^verbatim>\<open>exitDevelopmentMode\<close>,
  the command \<^verbatim>\<open>devRunOn\<close> with the event handlers it registers, and
  \<^verbatim>\<open>forceExitDevMode\<close>.

  The source mutates objects that several closures share (the state record \<^verbatim>\<open>cs\<close>, the
  child process, the timer), so the model keeps them in explicit stores and the closures hold
  indices into these stores. Every handler is a function from the world before the event to
  the world after it; a handler that throws returns \<open>Inl\<close>.
\<close>

subsection \<open>Data\<close>

datatype ComponentContextState =
  DEV | DEV_STARTING | DEV_RUNNING | DEV_STOPPING | DEB | DEB_RUNNING | DEP | DEP_RUNNING

datatype Signal = SIGINT | SIGABRT

datatype RunOn = podman

text \<open>
  The part of Node's \<^verbatim>\<open>ChildProcess\<close> the code touches: \<^verbatim>\<open>exitCode\<close> (\<^verbatim>\<open>null\<close> until the
  process has exited with a code) and the calls of \<^verbatim>\<open>kill\<close>, recorded in call order.
\<close>

record ChildProcess =
  exitCode :: "int option"
  killCalls :: "Signal list"

text \<open>
  A timer made by \<^verbatim>\<open>setTimeout\<close>: scheduled, fired (its callback has run), or cleared by
  \<^verbatim>\<open>clearTimeout\<close>. \<^verbatim>\<open>refresh\<close> schedules it again with the delay it was created with.
\<close>

datatype TimerState = Scheduled | Fired | Cleared

record Timeout =
  timerState :: TimerState
  delay :: nat

text \<open>
  The closure returned by \<^verbatim>\<open>exitDevelopmentMode\<close>: its variables \<^verbatim>\<open>sigAbortSent\<close> and
  \<^verbatim>\<open>devCleaningTimeout\<close> (a timer handle, or \<^verbatim>\<open>undefined\<close> after \<^verbatim>\<open>dispose\<close>) and the
  process it was given.
\<close>

record DevProcessStopRequest =
  sigAbortSent :: bool
  devCleaningTimeout :: "nat option"
  stopDevProcess :: nat

record Terminal =
  terminalName :: string
  shown :: bool
  disposed :: bool

record ComponentDevState =
  devTerminal :: "Terminal option"
  devProcess :: "nat option"
  devStatus :: "ComponentContextState option"
  contextValue :: "string option"
  devProcessStopRequest :: "nat option"
  debugStatus :: "ComponentContextState option"
  deployStatus :: "ComponentContextState option"
  runOn :: "RunOn option"

text \<open>
  What the code reads of a \<^verbatim>\<open>ComponentWorkspaceFolder\<close>: the context path, the component
  name of the devfile, and the three \<^verbatim>\<open>supportedOdoFeatures\<close> flags (a missing flag is
  falsy, hence \<open>False\<close>).
\<close>

record ComponentWorkspaceFolder =
  contextPath :: string
  componentName :: string
  supportsDev :: bool
  supportsDebug :: bool
  supportsDeploy :: bool

text \<open>
  The closure of one call of \<^verbatim>\<open>devRunOn\<close>: its arguments, its local variable
  \<^verbatim>\<open>devProcess\<close> (unset until \<^verbatim>\<open>spawnTool\<close> resolves), whether \<^verbatim>\<open>spawnTool\<close> has been
  called and not yet resolved, and what its \<^verbatim>\<open>outputEmitter\<close> has fired.
\<close>

record DevRun =
  runFolder :: ComponentWorkspaceFolder
  runRunOn :: "RunOn option"
  runDevProcess :: "nat option"
  runSpawnPending :: bool
  outputEmitter :: "string list"

datatype Message =
  WarningMessage string "string list"
| InformationMessage string
| ErrorMessage string

record World =
  componentStates :: "string \<rightharpoonup> ComponentDevState"
  processes :: "ChildProcess list"
  timers :: "Timeout list"
  stopRequests :: "DevProcessStopRequest list"
  runs :: "DevRun list"
  stateChanged :: "string list"
  messages :: "Message list"
  cleanupRequests :: "string list"
  stopDevModeTimeout :: nat

datatype Exn = TypeError | NoSuchObject

text \<open>
  \<open>TypeError\<close> is what JavaScript throws when a member of \<^verbatim>\<open>undefined\<close> is read.
  \<open>NoSuchObject\<close> is not a behaviour of the program: it marks an event addressed to a
  closure, process or timer that was never created.
\<close>

definition heapGet :: "'a list \<Rightarrow> nat \<Rightarrow> 'a option" where
  "heapGet xs i = (if i < length xs then Some (xs ! i) else None)"

definition initialWorld :: "nat \<Rightarrow> World" where
  "initialWorld d =
     \<lparr> componentStates = Map.empty, processes = [], timers = [], stopRequests = [],
       runs = [], stateChanged = [], messages = [], cleanupRequests = [],
       stopDevModeTimeout = d \<rparr>"

subsection \<open>Primitive effects\<close>

definition fireStateChanged :: "string \<Rightarrow> World \<Rightarrow> World" where
  "fireStateChanged ctx w = w\<lparr>stateChanged := stateChanged w @ [ctx]\<rparr>"

definition setState :: "string \<Rightarrow> ComponentDevState \<Rightarrow> World \<Rightarrow> World" where
  "setState ctx cs w = w\<lparr>componentStates := (componentStates w)(ctx \<mapsto> cs)\<rparr>"

definition showMessage :: "Message \<Rightarrow> World \<Rightarrow> World" where
  "showMessage m w = w\<lparr>messages := messages w @ [m]\<rparr>"

definition emit :: "nat \<Rightarrow> string \<Rightarrow> World \<Rightarrow> World" where
  "emit r s w =
     w\<lparr>runs := (runs w)[r := (runs w ! r)\<lparr>outputEmitter := outputEmitter (runs w ! r) @ [s]\<rparr>]\<rparr>"

definition kill :: "nat \<Rightarrow> Signal \<Rightarrow> World \<Rightarrow> World" where
  "kill p sig w =
     w\<lparr>processes := (processes w)[p := (processes w ! p)\<lparr>killCalls := killCalls (processes w ! p) @ [sig]\<rparr>]\<rparr>"

text \<open>\<^verbatim>\<open>s.replaceAll('\n', '\r\n')\<close>\<close>

fun replaceAll_nl :: "string \<Rightarrow> string" where
  "replaceAll_nl [] = []"
| "replaceAll_nl (c # cs) =
     (if c = CHR 0x0A then CHR 0x0D # CHR 0x0A # replaceAll_nl cs else c # replaceAll_nl cs)"

text \<open>\<^verbatim>\<open>data.charCodeAt(0) === 3\<close>; \<^verbatim>\<open>charCodeAt\<close> of the empty string is \<^verbatim>\<open>NaN\<close>.\<close>

fun isCtrlC :: "string \<Rightarrow> bool" where
  "isCtrlC [] = False"
| "isCtrlC (c # cs) = (c = CHR 0x03)"

subsection \<open>getComponentDevState\<close>

definition getComponentDevState ::
  "ComponentWorkspaceFolder \<Rightarrow> World \<Rightarrow> ComponentDevState \<times> World" where
  "getComponentDevState folder w =
     (case componentStates w (contextPath folder) of
        Some state \<Rightarrow> (state, w)
      | None \<Rightarrow>
          (let state =
             \<lparr> devTerminal = None, devProcess = None,
               devStatus = (if supportsDev folder then Some DEV else None),
               contextValue = None, devProcessStopRequest = None,
               debugStatus = (if supportsDebug folder then Some DEB else None),
               deployStatus = (if supportsDeploy folder then Some DEP else None),
               runOn = None \<rparr>
           in (state, setState (contextPath folder) state w)))"

subsection \<open>exitDevelopmentMode and the stop request\<close>

text \<open>
  \<^verbatim>\<open>exitDevelopmentMode(devProcess)\<close> starts a timer with the configured delay
  (\<^verbatim>\<open>devModeExitTimeout()\<close>) and returns the stop request; the result is the index of the
  new stop request and the new world.
\<close>

definition exitDevelopmentMode :: "nat \<Rightarrow> World \<Rightarrow> nat \<times> World" where
  "exitDevelopmentMode p w =
     (let t = length (timers w);
          sr = length (stopRequests w)
      in (sr,
          w\<lparr>timers := timers w @ [\<lparr>timerState = Scheduled, delay = stopDevModeTimeout w\<rparr>],
            stopRequests := stopRequests w @
              [\<lparr>sigAbortSent = False, devCleaningTimeout = Some t, stopDevProcess = p\<rparr>]\<rparr>))"

text \<open>
  The timer's callback: the timer has fired and the warning with its two actions is shown.
  A cleared timer never fires.
\<close>

definition timerExpires :: "nat \<Rightarrow> World \<Rightarrow> Exn + World" where
  "timerExpires sr w =
     (case heapGet (stopRequests w) sr of
        None \<Rightarrow> Inl NoSuchObject
      | Some q \<Rightarrow>
          (case devCleaningTimeout q of
             None \<Rightarrow> Inl NoSuchObject
           | Some t \<Rightarrow>
               (case heapGet (timers w) t of
                  None \<Rightarrow> Inl NoSuchObject
                | Some tm \<Rightarrow>
                    if timerState tm = Scheduled
                    then Inr (showMessage
                           (WarningMessage ''Exiting development mode is taking to long.''
                              [''Keep waiting'', ''Force exit''])
                           (w\<lparr>timers := (timers w)[t := tm\<lparr>timerState := Fired\<rparr>]\<rparr>))
                    else Inl NoSuchObject)))"

text \<open>\<^verbatim>\<open>timeout.refresh()\<close>: no effect on a cleared timer.\<close>

definition refresh :: "nat \<Rightarrow> World \<Rightarrow> World" where
  "refresh t w =
     (if timerState (timers w ! t) = Cleared then w
      else w\<lparr>timers := (timers w)[t := (timers w ! t)\<lparr>timerState := Scheduled\<rparr>]\<rparr>)"

text \<open>
  The continuation of the warning: \<open>action\<close> is the button chosen, \<open>None\<close> when the
  warning was dismissed.
\<close>

definition promptAnswered :: "nat \<Rightarrow> string option \<Rightarrow> World \<Rightarrow> Exn + World" where
  "promptAnswered sr action w =
     (case heapGet (stopRequests w) sr of
        None \<Rightarrow> Inl NoSuchObject
      | Some q \<Rightarrow>
          (case devCleaningTimeout q of
             None \<Rightarrow>
               Inr (showMessage
                      (InformationMessage
                         ''The warning message has expired and requested action cannot be executed.'')
                      w)
           | Some t \<Rightarrow>
               if action = Some ''Keep waiting'' then Inr (refresh t w)
               else if action = Some ''Force exit''
               then Inr (kill (stopDevProcess q) SIGABRT
                          (w\<lparr>stopRequests := (stopRequests w)[sr := q\<lparr>sigAbortSent := True\<rparr>]\<rparr>))
               else Inr w))"

text \<open>\<^verbatim>\<open>dispose\<close>: \<^verbatim>\<open>clearTimeout(devCleaningTimeout); devCleaningTimeout = undefined\<close>.\<close>

definition dispose :: "nat \<Rightarrow> World \<Rightarrow> World" where
  "dispose sr w =
     (let q = stopRequests w ! sr;
          w1 = (case devCleaningTimeout q of
                  None \<Rightarrow> w
                | Some t \<Rightarrow> w\<lparr>timers := (timers w)[t := (timers w ! t)\<lparr>timerState := Cleared\<rparr>]\<rparr>)
      in w1\<lparr>stopRequests := (stopRequests w1)[sr := q\<lparr>devCleaningTimeout := None\<rparr>]\<rparr>)"

definition isSigabrtSent :: "nat \<Rightarrow> World \<Rightarrow> bool" where
  "isSigabrtSent sr w = sigAbortSent (stopRequests w ! sr)"

definition sendSigabrt :: "nat \<Rightarrow> World \<Rightarrow> World" where
  "sendSigabrt sr w =
     (let q = stopRequests w ! sr
      in kill (stopDevProcess q) SIGABRT
           (w\<lparr>stopRequests := (stopRequests w)[sr := q\<lparr>sigAbortSent := True\<rparr>]\<rparr>))"

subsection \<open>devRunOn\<close>

text \<open>
  Lines 293 to 299: the state record is fetched (or created), \<^verbatim>\<open>devStatus\<close> and \<^verbatim>\<open>runOn\<close>
  are assigned, the change is announced and, without a run target, the command that deletes
  previously pushed resources is started. There is no test of the current \<^verbatim>\<open>devStatus\<close>.
\<close>

definition devRunOn_start :: "ComponentWorkspaceFolder \<Rightarrow> RunOn option \<Rightarrow> World \<Rightarrow> World" where
  "devRunOn_start folder ro w =
     (let (cs, w1) = getComponentDevState folder w;
          w2 = fireStateChanged (contextPath folder)
                 (setState (contextPath folder) (cs\<lparr>devStatus := Some DEV_STARTING, runOn := ro\<rparr>) w1)
      in if ro = None then w2\<lparr>cleanupRequests := cleanupRequests w2 @ [componentName folder]\<rparr>
         else w2)"

text \<open>
  Lines 300 to 374, after the awaited command, whose result is not read: a new closure
  (output emitter, local
  \<^verbatim>\<open>devProcess\<close>) and a new terminal, stored in \<^verbatim>\<open>cs.devTerminal\<close>. \<^verbatim>\<open>cs\<close> is the record
  fetched at line 293; no code removes a record from \<^verbatim>\<open>componentStates\<close>, so the reference is
  the entry under the folder's context path.
\<close>

definition devRunOn_terminal :: "ComponentWorkspaceFolder \<Rightarrow> RunOn option \<Rightarrow> World \<Rightarrow> World" where
  "devRunOn_terminal folder ro w =
     (case componentStates w (contextPath folder) of
        None \<Rightarrow> w
      | Some cs \<Rightarrow>
          setState (contextPath folder)
            (cs\<lparr>devTerminal :=
                  Some \<lparr>terminalName = contextPath folder, shown = False, disposed = False\<rparr>\<rparr>)
            (w\<lparr>runs := runs w @
                  [\<lparr>runFolder = folder, runRunOn = ro, runDevProcess = None,
                    runSpawnPending = False, outputEmitter = []\<rparr>]\<rparr>))"

definition devRunOn :: "ComponentWorkspaceFolder \<Rightarrow> RunOn option \<Rightarrow> World \<Rightarrow> World" where
  "devRunOn folder ro w = devRunOn_terminal folder ro (devRunOn_start folder ro w)"

text \<open>
  What the handlers of closure \<open>r\<close> see: the closure itself and the state record \<^verbatim>\<open>cs\<close> it
  captured.
\<close>

definition closureEnv :: "nat \<Rightarrow> World \<Rightarrow> (DevRun \<times> ComponentDevState) option" where
  "closureEnv r w =
     (case heapGet (runs w) r of
        None \<Rightarrow> None
      | Some run \<Rightarrow>
          (case componentStates w (contextPath (runFolder run)) of
             None \<Rightarrow> None
           | Some cs \<Rightarrow> Some (run, cs)))"

text \<open>
  \<^verbatim>\<open>open\<close> of the pseudo terminal: announces the command (\<open>cmd\<close> is the text of
  \<^verbatim>\<open>Command.dev(...)\<close>) and calls \<^verbatim>\<open>spawnTool\<close>.
\<close>

definition ptyOpen :: "nat \<Rightarrow> string \<Rightarrow> World \<Rightarrow> Exn + World" where
  "ptyOpen r cmd w =
     (case closureEnv r w of
        None \<Rightarrow> Inl NoSuchObject
      | Some (run, cs) \<Rightarrow>
          (let w1 = emit r (''Starting '' @ cmd @ [CHR 0x0D, CHR 0x0A]) w
           in Inr (w1\<lparr>runs := (runs w1)[r := (runs w1 ! r)\<lparr>runSpawnPending := True\<rparr>]\<rparr>)))"

text \<open>
  \<^verbatim>\<open>spawnTool(...).then((cp) => ...)\<close>: the promise resolves with a new child process, which
  is stored in the closure's \<^verbatim>\<open>devProcess\<close>; the handlers below are registered on it.
\<close>

definition spawnToolThen :: "nat \<Rightarrow> World \<Rightarrow> Exn + World" where
  "spawnToolThen r w =
     (case closureEnv r w of
        None \<Rightarrow> Inl NoSuchObject
      | Some (run, cs) \<Rightarrow>
          if runSpawnPending run
          then Inr (w\<lparr>processes := processes w @ [\<lparr>exitCode = None, killCalls = []\<rparr>],
                     runs := (runs w)[r := run\<lparr>runDevProcess := Some (length (processes w)),
                                               runSpawnPending := False\<rparr>]\<rparr>)
          else Inl NoSuchObject)"

text \<open>\<^verbatim>\<open>devProcess.on('spawn', ...)\<close>\<close>

definition onSpawn :: "nat \<Rightarrow> World \<Rightarrow> Exn + World" where
  "onSpawn r w =
     (case closureEnv r w of
        None \<Rightarrow> Inl NoSuchObject
      | Some (run, cs) \<Rightarrow>
          (case runDevProcess run of
             None \<Rightarrow> Inl NoSuchObject
           | Some p \<Rightarrow>
               (case devTerminal cs of
                  None \<Rightarrow> Inl TypeError
                | Some t \<Rightarrow>
                    Inr (fireStateChanged (contextPath (runFolder run))
                          (setState (contextPath (runFolder run))
                             (cs\<lparr>devTerminal := Some (t\<lparr>shown := True\<rparr>),
                                 devProcess := Some p,
                                 devStatus := Some DEV_RUNNING\<rparr>) w)))))"

text \<open>\<^verbatim>\<open>devProcess.on('error', ...)\<close>\<close>

definition onError :: "nat \<Rightarrow> string \<Rightarrow> World \<Rightarrow> Exn + World" where
  "onError r msg w =
     (case closureEnv r w of
        None \<Rightarrow> Inl NoSuchObject
      | Some (run, cs) \<Rightarrow>
          (case runDevProcess run of
             None \<Rightarrow> Inl NoSuchObject
           | Some p \<Rightarrow>
               Inr (fireStateChanged (contextPath (runFolder run))
                     (setState (contextPath (runFolder run)) (cs\<lparr>devStatus := Some DEV\<rparr>)
                        (showMessage (ErrorMessage msg) w)))))"

text \<open>\<^verbatim>\<open>devProcess.stdout.on('data', ...)\<close>\<close>

definition onStdout :: "nat \<Rightarrow> string \<Rightarrow> World \<Rightarrow> Exn + World" where
  "onStdout r chunk w =
     (case closureEnv r w of
        None \<Rightarrow> Inl NoSuchObject
      | Some (run, cs) \<Rightarrow>
          (case runDevProcess run of
             None \<Rightarrow> Inl NoSuchObject
           | Some p \<Rightarrow>
               (let w1 = (if devStatus cs = Some DEV_STARTING
                          then fireStateChanged (contextPath (runFolder run))
                                 (setState (contextPath (runFolder run))
                                    (cs\<lparr>devStatus := Some DEV_RUNNING\<rparr>) w)
                          else w)
                in Inr (emit r (replaceAll_nl chunk) w1))))"

text \<open>
  \<^verbatim>\<open>devProcess.stderr.on('data', ...)\<close>: the chunk is written in red unless
  \<^verbatim>\<open>cs.devProcessStopRequest?.isSigabrtSent()\<close> is true.
\<close>

definition onStderr :: "nat \<Rightarrow> string \<Rightarrow> World \<Rightarrow> Exn + World" where
  "onStderr r chunk w =
     (case closureEnv r w of
        None \<Rightarrow> Inl NoSuchObject
      | Some (run, cs) \<Rightarrow>
          (case runDevProcess run of
             None \<Rightarrow> Inl NoSuchObject
           | Some p \<Rightarrow>
               (let red = [CHR 0x1B] @ ''[31m'' @ chunk @ [CHR 0x1B] @ ''[0m''
                in case devProcessStopRequest cs of
                     None \<Rightarrow> Inr (emit r (replaceAll_nl red) w)
                   | Some sr \<Rightarrow>
                       (case heapGet (stopRequests w) sr of
                          None \<Rightarrow> Inl NoSuchObject
                        | Some q \<Rightarrow>
                            if \<not> isSigabrtSent sr w then Inr (emit r (replaceAll_nl red) w)
                            else Inr w))))"

text \<open>
  \<^verbatim>\<open>devProcess.on('exit', ...)\<close>. Node has set the process's \<^verbatim>\<open>exitCode\<close> before the
  handler runs: \<open>code\<close> is the exit code, \<open>None\<close> when a signal ended the process.
\<close>

definition onExit :: "nat \<Rightarrow> int option \<Rightarrow> World \<Rightarrow> Exn + World" where
  "onExit r code w =
     (case closureEnv r w of
        None \<Rightarrow> Inl NoSuchObject
      | Some (run, cs) \<Rightarrow>
          (case runDevProcess run of
             None \<Rightarrow> Inl NoSuchObject
           | Some p \<Rightarrow>
               (case heapGet (processes w) p of
                  None \<Rightarrow> Inl NoSuchObject
                | Some pr \<Rightarrow>
                    (let w0 = w\<lparr>processes := (processes w)[p := pr\<lparr>exitCode := code\<rparr>]\<rparr>;
                         w1 = (case devProcessStopRequest cs of
                                 None \<Rightarrow> w0
                               | Some sr \<Rightarrow> dispose sr w0);
                         w2 = emit r ([CHR 0x0D, CHR 0x0A] @ ''Press any key to close this terminal''
                                        @ [CHR 0x0D, CHR 0x0A]) w1
                     in Inr (fireStateChanged (contextPath (runFolder run))
                              (setState (contextPath (runFolder run))
                                 (cs\<lparr>devProcessStopRequest := None,
                                     devStatus := Some DEV,
                                     devProcess := None\<rparr>) w2))))))"

text \<open>
  The four statements that \<^verbatim>\<open>close\<close> (lines 353 to 356) and \<^verbatim>\<open>handleInput\<close>
  (lines 366 to 369) share: \<^verbatim>\<open>devStatus\<close> becomes \<^verbatim>\<open>DEV_STOPPING\<close>, the change is announced,
  the process gets \<^verbatim>\<open>SIGINT\<close>, and the stop request is created. The result is the state
  record after these statements and the world holding it.
\<close>

definition interruptDevProcess ::
  "string \<Rightarrow> ComponentDevState \<Rightarrow> nat \<Rightarrow> World \<Rightarrow> ComponentDevState \<times> World" where
  "interruptDevProcess ctx cs p w =
     (let cs1 = cs\<lparr>devStatus := Some DEV_STOPPING\<rparr>;
          w1 = kill p SIGINT (fireStateChanged ctx (setState ctx cs1 w));
          (sr, w2) = exitDevelopmentMode p w1;
          cs2 = cs1\<lparr>devProcessStopRequest := Some sr\<rparr>
      in (cs2, setState ctx cs2 w2))"

text \<open>\<^verbatim>\<open>close\<close> of the pseudo terminal\<close>

definition ptyClose :: "nat \<Rightarrow> World \<Rightarrow> Exn + World" where
  "ptyClose r w =
     (case closureEnv r w of
        None \<Rightarrow> Inl NoSuchObject
      | Some (run, cs) \<Rightarrow>
          (let ctx = contextPath (runFolder run)
           in case devProcess cs of
                None \<Rightarrow> Inr (setState ctx (cs\<lparr>devTerminal := None\<rparr>) w)
              | Some p \<Rightarrow>
                  (case heapGet (processes w) p of
                     None \<Rightarrow> Inl NoSuchObject
                   | Some pr \<Rightarrow>
                       if exitCode pr = None \<and> devProcessStopRequest cs = None
                       then (let (cs1, w1) = interruptDevProcess ctx cs p w
                             in Inr (setState ctx (cs1\<lparr>devTerminal := None\<rparr>) w1))
                       else Inr (setState ctx (cs\<lparr>devTerminal := None\<rparr>) w))))"

text \<open>\<^verbatim>\<open>handleInput\<close> of the pseudo terminal\<close>

definition handleInput :: "nat \<Rightarrow> string \<Rightarrow> World \<Rightarrow> Exn + World" where
  "handleInput r data w =
     (case closureEnv r w of
        None \<Rightarrow> Inl NoSuchObject
      | Some (run, cs) \<Rightarrow>
          (let ctx = contextPath (runFolder run)
           in if devStatus cs \<noteq> Some DEV_STARTING
              then (case devProcess cs of
                      None \<Rightarrow>
                        (case devTerminal cs of
                           None \<Rightarrow> Inl TypeError
                         | Some t \<Rightarrow> Inr (setState ctx (cs\<lparr>devTerminal := Some (t\<lparr>disposed := True\<rparr>)\<rparr>) w))
                    | Some p \<Rightarrow>
                        if devProcessStopRequest cs = None \<and> isCtrlC data
                        then Inr (snd (interruptDevProcess ctx cs p
                                         (emit r (''^C'' @ [CHR 0x0D, CHR 0x0A]) w)))
                        else Inr w)
              else Inr w))"

subsection \<open>forceExitDevMode\<close>

definition forceExitDevMode :: "ComponentWorkspaceFolder \<Rightarrow> World \<Rightarrow> Exn + World" where
  "forceExitDevMode folder w =
     (case componentStates w (contextPath folder) of
        None \<Rightarrow> Inl TypeError
      | Some componentState \<Rightarrow>
          (case devProcess componentState of
             None \<Rightarrow> Inr w
           | Some p \<Rightarrow>
               (case heapGet (processes w) p of
                  None \<Rightarrow> Inl NoSuchObject
                | Some pr \<Rightarrow>
                    if exitCode pr = None
                    then (case devProcessStopRequest componentState of
                            None \<Rightarrow> Inl TypeError
                          | Some sr \<Rightarrow> Inr (sendSigabrt sr w))
                    else Inr w)))"

subsection \<open>Events and reachable worlds\<close>

datatype Event =
  DevRunOnStart ComponentWorkspaceFolder "RunOn option"
| DevRunOnTerminal ComponentWorkspaceFolder "RunOn option"
| PtyOpen nat string
| SpawnToolThen nat
| OnSpawn nat
| OnError nat string
| OnStdout nat string
| OnStderr nat string
| OnExit nat "int option"
| PtyClose nat
| HandleInput nat string
| TimerExpires nat
| PromptAnswered nat "string option"
| ForceExitDevMode ComponentWorkspaceFolder

fun step :: "Event \<Rightarrow> World \<Rightarrow> Exn + World" where
  "step (DevRunOnStart folder ro) w = Inr (devRunOn_start folder ro w)"
| "step (DevRunOnTerminal folder ro) w = Inr (devRunOn_terminal folder ro w)"
| "step (PtyOpen r cmd) w = ptyOpen r cmd w"
| "step (SpawnToolThen r) w = spawnToolThen r w"
| "step (OnSpawn r) w = onSpawn r w"
| "step (OnError r msg) w = onError r msg w"
| "step (OnStdout r chunk) w = onStdout r chunk w"
| "step (OnStderr r chunk) w = onStderr r chunk w"
| "step (OnExit r code) w = onExit r code w"
| "step (PtyClose r) w = ptyClose r w"
| "step (HandleInput r data) w = handleInput r data w"
| "step (TimerExpires sr) w = timerExpires sr w"
| "step (PromptAnswered sr action) w = promptAnswered sr action w"
| "step (ForceExitDevMode folder) w = forceExitDevMode folder w"

inductive reachable :: "World \<Rightarrow> bool" where
  reachable_init: "reachable (initialWorld d)"
| reachable_step: "reachable w \<Longrightarrow> step e w = Inr w1 \<Longrightarrow> reachable w1"

text \<open>
  The event loop: events are handled in order, and a handler that throws leaves the world as
  it found it (none of the handlers above assigns anything before the statement that can
  throw); the next event is handled all the same.
\<close>

fun dispatch :: "Event list \<Rightarrow> World \<Rightarrow> World" where
  "dispatch [] w = w"
| "dispatch (e # es) w = (case step e w of Inl x \<Rightarrow> dispatch es w | Inr w1 \<Rightarrow> dispatch es w1)"

text \<open>
  What every session of a reachable world satisfies (shown below): a session that is
  stopping, or that holds a stop request, holds a process.
\<close>

definition holdsProcess :: "ComponentDevState \<Rightarrow> bool" where
  "holdsProcess cs =
     ((devStatus cs = Some DEV_STOPPING \<longrightarrow> devProcess cs \<noteq> None)
      \<and> (devProcessStopRequest cs \<noteq> None \<longrightarrow> devProcess cs \<noteq> None))"

definition sessionsHoldProcess :: "World \<Rightarrow> bool" where
  "sessionsHoldProcess w = (\<forall>ctx cs. componentStates w ctx = Some cs \<longrightarrow> holdsProcess cs)"

subsection \<open>Reading a session\<close>

text \<open>\<^verbatim>\<open>componentStates.get(ctx)?.devStatus\<close> and its siblings\<close>

definition devStatusOf :: "string \<Rightarrow> World \<Rightarrow> ComponentContextState option" where
  "devStatusOf ctx w = (case componentStates w ctx of None \<Rightarrow> None | Some cs \<Rightarrow> devStatus cs)"

definition devProcessOf :: "string \<Rightarrow> World \<Rightarrow> nat option" where
  "devProcessOf ctx w = (case componentStates w ctx of None \<Rightarrow> None | Some cs \<Rightarrow> devProcess cs)"

definition stopRequestOf :: "string \<Rightarrow> World \<Rightarrow> nat option" where
  "stopRequestOf ctx w =
     (case componentStates w ctx of None \<Rightarrow> None | Some cs \<Rightarrow> devProcessStopRequest cs)"

definition runOnOf :: "string \<Rightarrow> World \<Rightarrow> RunOn option" where
  "runOnOf ctx w = (case componentStates w ctx of None \<Rightarrow> None | Some cs \<Rightarrow> runOn cs)"

subsection \<open>A concrete session\<close>

text \<open>
  One workspace folder with a component that supports \<^verbatim>\<open>dev\<close>, a stop timeout of 20000 ms,
  and the worlds a session passes through: the dev command is issued, the terminal opens,
  \<^verbatim>\<open>spawnTool\<close> resolves (\<open>startingWorld\<close>), the process reports \<^verbatim>\<open>spawn\<close>
  (\<open>runningWorld\<close>), the user presses Ctrl-C (\<open>stoppingWorld\<close>), the timer fires
  (\<open>expiredWorld\<close>), and then either the user chooses to force the exit
  (\<open>forcedWorld\<close>) or the process exits while the warning is still open
  (\<open>exitedWorld\<close>). In \<open>closedWorld\<close> the user closes the terminal before the process has
  reported \<^verbatim>\<open>spawn\<close>.
\<close>

definition appFolder :: ComponentWorkspaceFolder where
  "appFolder =
     \<lparr> contextPath = ''/ws/app'', componentName = ''app'',
       supportsDev = True, supportsDebug = False, supportsDeploy = False \<rparr>"

definition startingWorld :: World where
  "startingWorld =
     dispatch [DevRunOnStart appFolder None, DevRunOnTerminal appFolder None,
          PtyOpen 0 ''odo dev'', SpawnToolThen 0] (initialWorld 20000)"

definition runningWorld :: World where
  "runningWorld = dispatch [OnSpawn 0] startingWorld"

definition stoppingWorld :: World where
  "stoppingWorld = dispatch [HandleInput 0 [CHR 0x03]] runningWorld"

definition expiredWorld :: World where
  "expiredWorld = dispatch [TimerExpires 0] stoppingWorld"

definition forcedWorld :: World where
  "forcedWorld = dispatch [PromptAnswered 0 (Some ''Force exit'')] expiredWorld"

definition exitedWorld :: World where
  "exitedWorld = dispatch [OnExit 0 (Some 0)] expiredWorld"

definition closedWorld :: World where
  "closedWorld = dispatch [PtyClose 0] startingWorld"

section \<open>Properties\<close>

subsection \<open>Evaluating the concrete session\<close>

lemmas handler_defs = devRunOn_start_def devRunOn_terminal_def devRunOn_def getComponentDevState_def setState_def fireStateChanged_def
  ptyOpen_def closureEnv_def heapGet_def emit_def spawnToolThen_def onSpawn_def onError_def onStdout_def onStderr_def onExit_def
  interruptDevProcess_def ptyClose_def handleInput_def forceExitDevMode_def kill_def exitDevelopmentMode_def timerExpires_def
  refresh_def promptAnswered_def dispose_def isSigabrtSent_def sendSigabrt_def showMessage_def Let_def

lemmas reader_defs = devStatusOf_def devProcessOf_def stopRequestOf_def runOnOf_def

lemma startingWorld_eq:
  "startingWorld =
     \<lparr> componentStates =
         [''/ws/app'' \<mapsto>
            \<lparr> devTerminal = Some \<lparr>terminalName = ''/ws/app'', shown = False, disposed = False\<rparr>,
              devProcess = None, devStatus = Some DEV_STARTING, contextValue = None,
              devProcessStopRequest = None, debugStatus = None, deployStatus = None,
              runOn = None \<rparr>],
       processes = [\<lparr>exitCode = None, killCalls = []\<rparr>],
       timers = [], stopRequests = [],
       runs = [\<lparr> runFolder = appFolder, runRunOn = None, runDevProcess = Some 0,
                 runSpawnPending = False,
                 outputEmitter = [''Starting odo dev'' @ [CHR 0x0D, CHR 0x0A]] \<rparr>],
       stateChanged = [''/ws/app''], messages = [], cleanupRequests = [''app''],
       stopDevModeTimeout = 20000 \<rparr>"
  by (simp add: startingWorld_def appFolder_def initialWorld_def handler_defs)

lemma runningWorld_eq:
  "runningWorld =
     \<lparr> componentStates =
         [''/ws/app'' \<mapsto>
            \<lparr> devTerminal = Some \<lparr>terminalName = ''/ws/app'', shown = True, disposed = False\<rparr>,
              devProcess = Some 0, devStatus = Some DEV_RUNNING, contextValue = None,
              devProcessStopRequest = None, debugStatus = None, deployStatus = None,
              runOn = None \<rparr>],
       processes = [\<lparr>exitCode = None, killCalls = []\<rparr>],
       timers = [], stopRequests = [],
       runs = [\<lparr> runFolder = appFolder, runRunOn = None, runDevProcess = Some 0,
                 runSpawnPending = False,
                 outputEmitter = [''Starting odo dev'' @ [CHR 0x0D, CHR 0x0A]] \<rparr>],
       stateChanged = [''/ws/app'', ''/ws/app''], messages = [], cleanupRequests = [''app''],
       stopDevModeTimeout = 20000 \<rparr>"
  by (simp add: runningWorld_def startingWorld_eq appFolder_def handler_defs)

lemma stoppingWorld_eq:
  "stoppingWorld =
     \<lparr> componentStates =
         [''/ws/app'' \<mapsto>
            \<lparr> devTerminal = Some \<lparr>terminalName = ''/ws/app'', shown = True, disposed = False\<rparr>,
              devProcess = Some 0, devStatus = Some DEV_STOPPING, contextValue = None,
              devProcessStopRequest = Some 0, debugStatus = None, deployStatus = None,
              runOn = None \<rparr>],
       processes = [\<lparr>exitCode = None, killCalls = [SIGINT]\<rparr>],
       timers = [\<lparr>timerState = Scheduled, delay = 20000\<rparr>],
       stopRequests = [\<lparr>sigAbortSent = False, devCleaningTimeout = Some 0, stopDevProcess = 0\<rparr>],
       runs = [\<lparr> runFolder = appFolder, runRunOn = None, runDevProcess = Some 0,
                 runSpawnPending = False,
                 outputEmitter = [''Starting odo dev'' @ [CHR 0x0D, CHR 0x0A],
                                  ''^C'' @ [CHR 0x0D, CHR 0x0A]] \<rparr>],
       stateChanged = [''/ws/app'', ''/ws/app'', ''/ws/app''], messages = [],
       cleanupRequests = [''app''], stopDevModeTimeout = 20000 \<rparr>"
  by (simp add: stoppingWorld_def runningWorld_eq appFolder_def handler_defs)

lemma expiredWorld_eq:
  "expiredWorld =
     stoppingWorld\<lparr> timers := [\<lparr>timerState = Fired, delay = 20000\<rparr>],
       messages := [WarningMessage ''Exiting development mode is taking to long.''
                      [''Keep waiting'', ''Force exit'']] \<rparr>"
  by (simp add: expiredWorld_def stoppingWorld_eq handler_defs)

lemma forcedWorld_eq:
  "forcedWorld =
     expiredWorld\<lparr> processes := [\<lparr>exitCode = None, killCalls = [SIGINT, SIGABRT]\<rparr>],
       stopRequests := [\<lparr>sigAbortSent = True, devCleaningTimeout = Some 0, stopDevProcess = 0\<rparr>] \<rparr>"
  by (simp add: forcedWorld_def expiredWorld_eq stoppingWorld_eq handler_defs)

lemma exitedWorld_eq:
  "exitedWorld =
     \<lparr> componentStates =
         [''/ws/app'' \<mapsto>
            \<lparr> devTerminal = Some \<lparr>terminalName = ''/ws/app'', shown = True, disposed = False\<rparr>,
              devProcess = None, devStatus = Some DEV, contextValue = None,
              devProcessStopRequest = None, debugStatus = None, deployStatus = None,
              runOn = None \<rparr>],
       processes = [\<lparr>exitCode = Some 0, killCalls = [SIGINT]\<rparr>],
       timers = [\<lparr>timerState = Cleared, delay = 20000\<rparr>],
       stopRequests = [\<lparr>sigAbortSent = False, devCleaningTimeout = None, stopDevProcess = 0\<rparr>],
       runs = [\<lparr> runFolder = appFolder, runRunOn = None, runDevProcess = Some 0,
                 runSpawnPending = False,
                 outputEmitter = [''Starting odo dev'' @ [CHR 0x0D, CHR 0x0A],
                                  ''^C'' @ [CHR 0x0D, CHR 0x0A],
                                  [CHR 0x0D, CHR 0x0A] @ ''Press any key to close this terminal''
                                    @ [CHR 0x0D, CHR 0x0A]] \<rparr>],
       stateChanged = [''/ws/app'', ''/ws/app'', ''/ws/app'', ''/ws/app''],
       messages = [WarningMessage ''Exiting development mode is taking to long.''
                      [''Keep waiting'', ''Force exit'']],
       cleanupRequests = [''app''], stopDevModeTimeout = 20000 \<rparr>"
  by (simp add: exitedWorld_def expiredWorld_eq stoppingWorld_eq appFolder_def handler_defs)

lemma closedWorld_eq:
  "closedWorld =
     startingWorld\<lparr> componentStates :=
         [''/ws/app'' \<mapsto>
            \<lparr> devTerminal = None,
              devProcess = None, devStatus = Some DEV_STARTING, contextValue = None,
              devProcessStopRequest = None, debugStatus = None, deployStatus = None,
              runOn = None \<rparr>] \<rparr>"
  by (simp add: closedWorld_def startingWorld_eq appFolder_def handler_defs)

lemma reachable_dispatch: "reachable w \<Longrightarrow> reachable (dispatch es w)"
proof (induction es arbitrary: w)
  case Nil
  then show ?case by simp
next
  case (Cons e es)
  show ?case
  proof (cases "step e w")
    case (Inl x)
    with Cons show ?thesis by simp
  next
    case (Inr w1)
    with Cons.prems have "reachable w1" by (rule reachable_step)
    with Cons.IH Inr show ?thesis by simp
  qed
qed

lemma reachable_startingWorld: "reachable startingWorld"
  unfolding startingWorld_def by (rule reachable_dispatch) (rule reachable_init)

subsection \<open>Starting a session that is already starting or running\<close>

lemma getComponentDevState_entry:
  "componentStates (snd (getComponentDevState folder w)) (contextPath folder)
     = Some (fst (getComponentDevState folder w))"
  by (cases "componentStates w (contextPath folder)")
     (simp_all add: getComponentDevState_def setState_def Let_def split del: if_split)










subsection \<open>Process exit while stopping\<close>

text \<open>
  Claim C2. In a session that is stopping, with a stop request whose timer is still
  scheduled, the \<^verbatim>\<open>exit\<close> handler (for any exit code, and for an exit by signal) leaves
  \<^verbatim>\<open>devStatus\<close> at \<^verbatim>\<open>DEV\<close>, clears \<^verbatim>\<open>devProcess\<close> and \<^verbatim>\<open>devProcessStopRequest\<close>, and
  disposes the stop request: its timer is cleared (and so has not fired) and its handle is
  forgotten.
\<close>

theorem exit_while_stopping:
  assumes "closureEnv r w = Some (dr, cs)"
    and "runDevProcess dr = Some p"
    and "heapGet (processes w) p = Some pr"
    and "devStatus cs = Some DEV_STOPPING"
    and "devProcessStopRequest cs = Some sr"
    and "heapGet (stopRequests w) sr = Some q"
    and "devCleaningTimeout q = Some t"
    and "heapGet (timers w) t = Some tm"
    and "timerState tm = Scheduled"
  shows "\<exists>w1. onExit r code w = Inr w1
           \<and> devStatusOf (contextPath (runFolder dr)) w1 = Some DEV
           \<and> devProcessOf (contextPath (runFolder dr)) w1 = None
           \<and> stopRequestOf (contextPath (runFolder dr)) w1 = None
           \<and> heapGet (timers w1) t = Some (tm\<lparr>timerState := Cleared\<rparr>)
           \<and> heapGet (stopRequests w1) sr = Some (q\<lparr>devCleaningTimeout := None\<rparr>)"
proof -
  from assms(3) have p: "p < length (processes w)"
    by (simp add: heapGet_def split: if_splits)
  from assms(6) have sr: "sr < length (stopRequests w)" "stopRequests w ! sr = q"
    by (simp_all add: heapGet_def split: if_splits)
  from assms(8) have t: "t < length (timers w)" "timers w ! t = tm"
    by (simp_all add: heapGet_def split: if_splits)
  show ?thesis
    using assms(1,2,3,5,7) p sr t
    by (simp add: onExit_def dispose_def emit_def setState_def fireStateChanged_def
          reader_defs heapGet_def Let_def)
qed

theorem exit_while_stopping_witness:
  "devStatusOf ''/ws/app'' stoppingWorld = Some DEV_STOPPING
   \<and> (\<exists>w1. onExit 0 None stoppingWorld = Inr w1
           \<and> devStatusOf ''/ws/app'' w1 = Some DEV
           \<and> devProcessOf ''/ws/app'' w1 = None
           \<and> stopRequestOf ''/ws/app'' w1 = None
           \<and> heapGet (timers w1) 0 = Some \<lparr>timerState = Cleared, delay = 20000\<rparr>
           \<and> heapGet (stopRequests w1) 0
               = Some \<lparr>sigAbortSent = False, devCleaningTimeout = None, stopDevProcess = 0\<rparr>)"
proof -
  let ?cs = "\<lparr> devTerminal = Some \<lparr>terminalName = ''/ws/app'', shown = True, disposed = False\<rparr>,
              devProcess = Some 0, devStatus = Some DEV_STOPPING, contextValue = None,
              devProcessStopRequest = Some 0, debugStatus = None, deployStatus = None,
              runOn = None \<rparr>"
  let ?run = "\<lparr> runFolder = appFolder, runRunOn = None, runDevProcess = Some 0,
                 runSpawnPending = False,
                 outputEmitter = [''Starting odo dev'' @ [CHR 0x0D, CHR 0x0A],
                                  ''^C'' @ [CHR 0x0D, CHR 0x0A]] \<rparr>"
  let ?q = "\<lparr>sigAbortSent = False, devCleaningTimeout = Some 0, stopDevProcess = 0\<rparr>"
  let ?tm = "\<lparr>timerState = Scheduled, delay = 20000\<rparr>"
  have h1: "closureEnv 0 stoppingWorld = Some (?run, ?cs)"
    by (simp add: stoppingWorld_eq closureEnv_def heapGet_def appFolder_def)
  have h2: "runDevProcess ?run = Some 0" by simp
  have h3: "heapGet (processes stoppingWorld) 0 = Some \<lparr>exitCode = None, killCalls = [SIGINT]\<rparr>"
    by (simp add: stoppingWorld_eq heapGet_def)
  have h4: "devStatus ?cs = Some DEV_STOPPING" by simp
  have h5: "devProcessStopRequest ?cs = Some 0" by simp
  have h6: "heapGet (stopRequests stoppingWorld) 0 = Some ?q"
    by (simp add: stoppingWorld_eq heapGet_def)
  have h7: "devCleaningTimeout ?q = Some 0" by simp
  have h8: "heapGet (timers stoppingWorld) 0 = Some ?tm"
    by (simp add: stoppingWorld_eq heapGet_def)
  have h9: "timerState ?tm = Scheduled" by simp
  have s: "devStatusOf ''/ws/app'' stoppingWorld = Some DEV_STOPPING"
    by (simp add: stoppingWorld_eq reader_defs)
  from exit_while_stopping [OF h1 h2 h3 h4 h5 h6 h7 h8 h9, of None] s
  show ?thesis by (simp add: appFolder_def)
qed

subsection \<open>Answering the escalation prompt\<close>

text \<open>
  Claim C3, as the code has it. When the timer has fired and the warning is answered while
  the stop request is not yet disposed: \<^verbatim>\<open>Keep waiting\<close> schedules the same timer again with
  the delay it was created with and changes nothing else (no signal is sent);
  \<^verbatim>\<open>Force exit\<close> sets \<^verbatim>\<open>sigAbortSent\<close> and calls \<^verbatim>\<open>kill('SIGABRT')\<close> on the process exactly
  once, and leaves the timer as it is, fired: it is neither scheduled again nor cleared. The
  timer is cleared only when the stop request is disposed, which the \<^verbatim>\<open>exit\<close> handler does.
\<close>

theorem prompt_answer_before_dispose:
  assumes "heapGet (stopRequests w) sr = Some q"
    and "devCleaningTimeout q = Some t"
    and "heapGet (timers w) t = Some tm"
    and "timerState tm = Fired"
    and "heapGet (processes w) (stopDevProcess q) = Some pr"
  shows "promptAnswered sr (Some ''Keep waiting'') w
           = Inr (w\<lparr>timers := (timers w)[t := tm\<lparr>timerState := Scheduled\<rparr>]\<rparr>)
         \<and> promptAnswered sr (Some ''Force exit'') w
           = Inr (w\<lparr>stopRequests := (stopRequests w)[sr := q\<lparr>sigAbortSent := True\<rparr>],
                    processes := (processes w)
                      [stopDevProcess q := pr\<lparr>killCalls := killCalls pr @ [SIGABRT]\<rparr>]\<rparr>)
         \<and> heapGet (timers (dispose sr
                (w\<lparr>stopRequests := (stopRequests w)[sr := q\<lparr>sigAbortSent := True\<rparr>],
                    processes := (processes w)
                      [stopDevProcess q := pr\<lparr>killCalls := killCalls pr @ [SIGABRT]\<rparr>]\<rparr>))) t
           = Some (tm\<lparr>timerState := Cleared\<rparr>)"
proof -
  from assms(1) have sr: "sr < length (stopRequests w)" "stopRequests w ! sr = q"
    by (simp_all add: heapGet_def split: if_splits)
  from assms(3) have t: "t < length (timers w)" "timers w ! t = tm"
    by (simp_all add: heapGet_def split: if_splits)
  from assms(5) have p: "stopDevProcess q < length (processes w)"
      "processes w ! stopDevProcess q = pr"
    by (simp_all add: heapGet_def split: if_splits)
  have keep: "promptAnswered sr (Some ''Keep waiting'') w
           = Inr (w\<lparr>timers := (timers w)[t := tm\<lparr>timerState := Scheduled\<rparr>]\<rparr>)"
    using assms(1,2,4) t by (simp add: promptAnswered_def refresh_def)
  have force: "promptAnswered sr (Some ''Force exit'') w
           = Inr (w\<lparr>stopRequests := (stopRequests w)[sr := q\<lparr>sigAbortSent := True\<rparr>],
                    processes := (processes w)
                      [stopDevProcess q := pr\<lparr>killCalls := killCalls pr @ [SIGABRT]\<rparr>]\<rparr>)"
    using assms(1,2) p by (simp add: promptAnswered_def kill_def)
  have later: "heapGet (timers (dispose sr
                (w\<lparr>stopRequests := (stopRequests w)[sr := q\<lparr>sigAbortSent := True\<rparr>],
                    processes := (processes w)
                      [stopDevProcess q := pr\<lparr>killCalls := killCalls pr @ [SIGABRT]\<rparr>]\<rparr>))) t
           = Some (tm\<lparr>timerState := Cleared\<rparr>)"
    using assms(2) sr t by (simp add: dispose_def heapGet_def Let_def)
  from keep force later show ?thesis by blast
qed

theorem prompt_answer_before_dispose_witness:
  "heapGet (timers expiredWorld) 0 = Some \<lparr>timerState = Fired, delay = 20000\<rparr>
   \<and> timers (dispatch [PromptAnswered 0 (Some ''Keep waiting'')] expiredWorld)
       = [\<lparr>timerState = Scheduled, delay = 20000\<rparr>]
   \<and> processes (dispatch [PromptAnswered 0 (Some ''Keep waiting'')] expiredWorld)
       = [\<lparr>exitCode = None, killCalls = [SIGINT]\<rparr>]
   \<and> processes (dispatch [PromptAnswered 0 (Some ''Force exit'')] expiredWorld)
       = [\<lparr>exitCode = None, killCalls = [SIGINT, SIGABRT]\<rparr>]
   \<and> timers (dispatch [PromptAnswered 0 (Some ''Force exit'')] expiredWorld)
       = [\<lparr>timerState = Fired, delay = 20000\<rparr>]"
proof -
  let ?q = "\<lparr>sigAbortSent = False, devCleaningTimeout = Some 0, stopDevProcess = 0\<rparr>"
  let ?tm = "\<lparr>timerState = Fired, delay = 20000\<rparr>"
  let ?pr = "\<lparr>exitCode = None, killCalls = [SIGINT]\<rparr>"
  have h1: "heapGet (stopRequests expiredWorld) 0 = Some ?q"
    by (simp add: expiredWorld_eq stoppingWorld_eq heapGet_def)
  have h2: "devCleaningTimeout ?q = Some 0" by simp
  have h3: "heapGet (timers expiredWorld) 0 = Some ?tm"
    by (simp add: expiredWorld_eq stoppingWorld_eq heapGet_def)
  have h4: "timerState ?tm = Fired" by simp
  have h5: "heapGet (processes expiredWorld) (stopDevProcess ?q) = Some ?pr"
    by (simp add: expiredWorld_eq stoppingWorld_eq heapGet_def)
  from prompt_answer_before_dispose [OF h1 h2 h3 h4 h5] h3
  show ?thesis by (simp add: expiredWorld_eq stoppingWorld_eq)
qed

text \<open>
  The claim as stated has \<^verbatim>\<open>Force exit\<close> move the timer to the cancelled state. In
  \<open>expiredWorld\<close> the answer \<^verbatim>\<open>Force exit\<close> sends \<^verbatim>\<open>SIGABRT\<close> and the timer stays fired.
  And in \<open>exitedWorld\<close>, where the process has exited while the warning was open, the
  answer \<^verbatim>\<open>Keep waiting\<close> does not schedule the timer again.
\<close>

theorem force_exit_timer_counterexample:
  "timers expiredWorld = [\<lparr>timerState = Fired, delay = 20000\<rparr>]
   \<and> messages expiredWorld
       = [WarningMessage ''Exiting development mode is taking to long.''
            [''Keep waiting'', ''Force exit'']]
   \<and> promptAnswered 0 (Some ''Force exit'') expiredWorld = Inr forcedWorld
   \<and> processes forcedWorld = [\<lparr>exitCode = None, killCalls = [SIGINT, SIGABRT]\<rparr>]
   \<and> timers forcedWorld = [\<lparr>timerState = Fired, delay = 20000\<rparr>]
   \<and> timerState (timers forcedWorld ! 0) \<noteq> Cleared
   \<and> timers (dispatch [PromptAnswered 0 (Some ''Keep waiting'')] exitedWorld)
       = [\<lparr>timerState = Cleared, delay = 20000\<rparr>]"
  by (simp add: forcedWorld_eq expiredWorld_eq stoppingWorld_eq exitedWorld_eq promptAnswered_def
        heapGet_def kill_def showMessage_def)

subsection \<open>From starting to running\<close>

text \<open>
  While the terminal of the session exists, a session that is starting becomes running on
  the \<^verbatim>\<open>spawn\<close> event and on the first chunk of standard output, whichever comes first,
  and the later of the two leaves it running; a chunk that arrives after \<^verbatim>\<open>spawn\<close> fires no
  further change notification.
\<close>

lemma sign_of_life_with_terminal:
  assumes "closureEnv r w = Some (dr, cs)"
    and "runDevProcess dr = Some p"
    and "devStatus cs = Some DEV_STARTING"
    and "devTerminal cs = Some tml"
  shows "devStatusOf (contextPath (runFolder dr)) (dispatch [OnSpawn r] w) = Some DEV_RUNNING"
    and "devStatusOf (contextPath (runFolder dr)) (dispatch [OnStdout r chunk] w) = Some DEV_RUNNING"
    and "devStatusOf (contextPath (runFolder dr)) (dispatch [OnSpawn r, OnStdout r chunk] w) = Some DEV_RUNNING"
    and "devStatusOf (contextPath (runFolder dr)) (dispatch [OnStdout r chunk, OnSpawn r] w) = Some DEV_RUNNING"
    and "stateChanged (dispatch [OnSpawn r, OnStdout r chunk] w) = stateChanged (dispatch [OnSpawn r] w)"
proof -
  from assms(1) have r: "r < length (runs w)" "runs w ! r = dr"
      "componentStates w (contextPath (runFolder dr)) = Some cs"
    by (auto simp: closureEnv_def heapGet_def split: option.splits if_splits)
  show "devStatusOf (contextPath (runFolder dr)) (dispatch [OnSpawn r] w) = Some DEV_RUNNING"
    using assms by (simp add: onSpawn_def devStatusOf_def setState_def fireStateChanged_def)
  show "devStatusOf (contextPath (runFolder dr)) (dispatch [OnStdout r chunk] w) = Some DEV_RUNNING"
    using assms by (simp add: onStdout_def devStatusOf_def setState_def fireStateChanged_def emit_def)
  show "devStatusOf (contextPath (runFolder dr)) (dispatch [OnSpawn r, OnStdout r chunk] w) = Some DEV_RUNNING"
    using assms r by (simp add: onSpawn_def onStdout_def devStatusOf_def setState_def fireStateChanged_def emit_def closureEnv_def heapGet_def)
  show "devStatusOf (contextPath (runFolder dr)) (dispatch [OnStdout r chunk, OnSpawn r] w) = Some DEV_RUNNING"
    using assms r by (simp add: onSpawn_def onStdout_def devStatusOf_def setState_def fireStateChanged_def emit_def closureEnv_def heapGet_def)
  show "stateChanged (dispatch [OnSpawn r, OnStdout r chunk] w) = stateChanged (dispatch [OnSpawn r] w)"
    using assms r by (simp add: onSpawn_def onStdout_def devStatusOf_def setState_def fireStateChanged_def emit_def closureEnv_def heapGet_def)
qed

text \<open>
  Claim C4 at the input where the code departs from it. The \<^verbatim>\<open>spawn\<close> handler begins with
  \<^verbatim>\<open>cs.devTerminal.show()\<close>, and \<^verbatim>\<open>close\<close> sets \<^verbatim>\<open>cs.devTerminal\<close> to \<^verbatim>\<open>undefined\<close>. In
  \<open>closedWorld\<close> the terminal was closed while the session was starting: the \<^verbatim>\<open>spawn\<close>
  event then throws before it assigns anything, the session stays in \<^verbatim>\<open>DEV_STARTING\<close>, and
  when the first chunk of output makes it running it still holds no process.
\<close>

theorem spawn_after_terminal_closed:
  "reachable closedWorld
   \<and> devStatusOf ''/ws/app'' closedWorld = Some DEV_STARTING
   \<and> onSpawn 0 closedWorld = Inl TypeError
   \<and> devStatusOf ''/ws/app'' (dispatch [OnSpawn 0] closedWorld) = Some DEV_STARTING
   \<and> devProcessOf ''/ws/app'' (dispatch [OnSpawn 0, OnStdout 0 ''ready''] closedWorld) = None
   \<and> devStatusOf ''/ws/app'' (dispatch [OnSpawn 0, OnStdout 0 ''ready''] closedWorld) = Some DEV_RUNNING"
proof -
  have "reachable closedWorld"
    unfolding closedWorld_def by (rule reachable_dispatch) (rule reachable_startingWorld)
  then show ?thesis
    by (simp add: closedWorld_eq startingWorld_eq appFolder_def reader_defs onSpawn_def onStdout_def
          closureEnv_def heapGet_def setState_def fireStateChanged_def emit_def)
qed

subsection \<open>Requesting a stop\<close>

lemma interruptDevProcess_effect:
  assumes "p < length (processes w)"
  shows "componentStates (snd (interruptDevProcess ctx cs p w)) ctx
           = Some (cs\<lparr>devStatus := Some DEV_STOPPING,
                       devProcessStopRequest := Some (length (stopRequests w))\<rparr>)"
    and "fst (interruptDevProcess ctx cs p w)
           = cs\<lparr>devStatus := Some DEV_STOPPING,
                 devProcessStopRequest := Some (length (stopRequests w))\<rparr>"
    and "processes (snd (interruptDevProcess ctx cs p w))
           = (processes w)[p := (processes w ! p)\<lparr>killCalls := killCalls (processes w ! p) @ [SIGINT]\<rparr>]"
    and "timers (snd (interruptDevProcess ctx cs p w))
           = timers w @ [\<lparr>timerState = Scheduled, delay = stopDevModeTimeout w\<rparr>]"
    and "stopRequests (snd (interruptDevProcess ctx cs p w))
           = stopRequests w @
               [\<lparr>sigAbortSent = False, devCleaningTimeout = Some (length (timers w)),
                 stopDevProcess = p\<rparr>]"
    and "stateChanged (snd (interruptDevProcess ctx cs p w)) = stateChanged w @ [ctx]"
  by (simp_all add: interruptDevProcess_def exitDevelopmentMode_def kill_def setState_def
        fireStateChanged_def Let_def)

lemma emit_frame:
  "processes (emit r s w) = processes w"
  "timers (emit r s w) = timers w"
  "stopRequests (emit r s w) = stopRequests w"
  "stopDevModeTimeout (emit r s w) = stopDevModeTimeout w"
  "componentStates (emit r s w) = componentStates w"
  by (simp_all add: emit_def)


lemma closureEnv_SomeD:
  assumes "closureEnv r w = Some (dr, cs)"
  shows "r < length (runs w)" "runs w ! r = dr"
    "componentStates w (contextPath (runFolder dr)) = Some cs"
  using assms by (auto simp: closureEnv_def heapGet_def split: option.splits if_splits)

lemma handleInput_accept:
  assumes "closureEnv r w = Some (dr, cs)"
    and "devStatus cs \<noteq> Some DEV_STARTING" and "devProcess cs = Some p"
    and "p < length (processes w)" and "devProcessStopRequest cs = None" and "isCtrlC data"
  shows "\<exists>w1. handleInput r data w = Inr w1
           \<and> devStatusOf (contextPath (runFolder dr)) w1 = Some DEV_STOPPING
           \<and> stopRequestOf (contextPath (runFolder dr)) w1 = Some (length (stopRequests w))
           \<and> processes w1 = (processes w)
                [p := (processes w ! p)\<lparr>killCalls := killCalls (processes w ! p) @ [SIGINT]\<rparr>]
           \<and> timers w1 = timers w @ [\<lparr>timerState = Scheduled, delay = stopDevModeTimeout w\<rparr>]
           \<and> stopRequests w1 = stopRequests w @
                [\<lparr>sigAbortSent = False, devCleaningTimeout = Some (length (timers w)),
                  stopDevProcess = p\<rparr>]"
proof -
  let ?ctx = "contextPath (runFolder dr)"
  let ?w0 = "emit r (''^C'' @ [CHR 0x0D, CHR 0x0A]) w"
  from assms(4) have p0: "p < length (processes ?w0)" by (simp add: emit_frame)
  have h: "handleInput r data w = Inr (snd (interruptDevProcess ?ctx cs p ?w0))"
    using assms by (simp add: handleInput_def)
  show ?thesis
    unfolding h
    using interruptDevProcess_effect [OF p0, of ?ctx cs]
    by (simp add: devStatusOf_def stopRequestOf_def emit_frame)
qed

lemma handleInput_reject:
  assumes "closureEnv r w = Some (dr, cs)"
    and "devStatus cs = Some DEV_STARTING \<or> devProcess cs = None
           \<or> devProcessStopRequest cs \<noteq> None \<or> \<not> isCtrlC data"
    and "handleInput r data w = Inr w1"
  shows "devStatusOf (contextPath (runFolder dr)) w1 = devStatus cs
         \<and> devProcessOf (contextPath (runFolder dr)) w1 = devProcess cs
         \<and> stopRequestOf (contextPath (runFolder dr)) w1 = devProcessStopRequest cs
         \<and> processes w1 = processes w \<and> timers w1 = timers w
         \<and> stopRequests w1 = stopRequests w"
proof (cases "devStatus cs = Some DEV_STARTING")
  case True
  with assms(1,3) have "w1 = w" by (simp add: handleInput_def)
  with closureEnv_SomeD(3) [OF assms(1)] show ?thesis by (simp add: reader_defs)
next
  case False
  show ?thesis
  proof (cases "devProcess cs")
    case None
    with False assms(1,3) obtain t where
      "w1 = setState (contextPath (runFolder dr)) (cs\<lparr>devTerminal := Some (t\<lparr>disposed := True\<rparr>)\<rparr>) w"
      by (auto simp: handleInput_def split: option.splits)
    then show ?thesis by (simp add: reader_defs setState_def None)
  next
    case (Some p)
    with False assms(2) have "\<not> (devProcessStopRequest cs = None \<and> isCtrlC data)" by auto
    with False Some assms(1,3) have "w1 = w" by (auto simp: handleInput_def)
    with closureEnv_SomeD(3) [OF assms(1)] show ?thesis by (simp add: reader_defs)
  qed
qed

lemma ptyClose_accept:
  assumes "closureEnv r w = Some (dr, cs)"
    and "devProcess cs = Some p" and "heapGet (processes w) p = Some pr" and "exitCode pr = None"
    and "devProcessStopRequest cs = None"
  shows "\<exists>w1. ptyClose r w = Inr w1
           \<and> devStatusOf (contextPath (runFolder dr)) w1 = Some DEV_STOPPING
           \<and> stopRequestOf (contextPath (runFolder dr)) w1 = Some (length (stopRequests w))
           \<and> processes w1 = (processes w)[p := pr\<lparr>killCalls := killCalls pr @ [SIGINT]\<rparr>]
           \<and> timers w1 = timers w @ [\<lparr>timerState = Scheduled, delay = stopDevModeTimeout w\<rparr>]
           \<and> stopRequests w1 = stopRequests w @
                [\<lparr>sigAbortSent = False, devCleaningTimeout = Some (length (timers w)),
                  stopDevProcess = p\<rparr>]"
proof -
  let ?ctx = "contextPath (runFolder dr)"
  from assms(3) have p: "p < length (processes w)" "processes w ! p = pr"
    by (simp_all add: heapGet_def split: if_splits)
  have h: "ptyClose r w
             = Inr (setState ?ctx ((fst (interruptDevProcess ?ctx cs p w))\<lparr>devTerminal := None\<rparr>)
                      (snd (interruptDevProcess ?ctx cs p w)))"
    using assms by (simp add: ptyClose_def Let_def split_beta)
  show ?thesis
    unfolding h
    using interruptDevProcess_effect [OF p(1), of ?ctx cs] p(2)
    by (simp add: devStatusOf_def stopRequestOf_def setState_def)
qed

lemma ptyClose_reject:
  assumes "closureEnv r w = Some (dr, cs)"
    and "devProcess cs = None \<or> devProcessStopRequest cs \<noteq> None
           \<or> (devProcess cs = Some p \<and> heapGet (processes w) p = Some pr \<and> exitCode pr \<noteq> None)"
    and "ptyClose r w = Inr w1"
  shows "devStatusOf (contextPath (runFolder dr)) w1 = devStatus cs
         \<and> devProcessOf (contextPath (runFolder dr)) w1 = devProcess cs
         \<and> stopRequestOf (contextPath (runFolder dr)) w1 = devProcessStopRequest cs
         \<and> processes w1 = processes w \<and> timers w1 = timers w
         \<and> stopRequests w1 = stopRequests w"
proof -
  from assms have "w1 = setState (contextPath (runFolder dr)) (cs\<lparr>devTerminal := None\<rparr>) w"
    by (cases "devProcess cs") (auto simp: ptyClose_def Let_def split: option.splits if_splits)
  then show ?thesis by (simp add: reader_defs setState_def)
qed

text \<open>
  Claim C5, as the code has it. Ctrl-C typed into the terminal is accepted as a stop request
  exactly when \<^verbatim>\<open>devStatus\<close> is not \<^verbatim>\<open>DEV_STARTING\<close>, the session holds a process and holds
  no stop request; closing the terminal is accepted as one exactly when the session holds a
  process whose \<^verbatim>\<open>exitCode\<close> is \<^verbatim>\<open>null\<close> and holds no stop request. An accepted request sends
  \<^verbatim>\<open>SIGINT\<close> to the process, sets \<^verbatim>\<open>devStatus\<close> to \<^verbatim>\<open>DEV_STOPPING\<close> and creates one stop
  request with one timer, scheduled with the configured delay. A request that is not accepted
  sends no signal, creates no timer and no stop request, and leaves \<^verbatim>\<open>devStatus\<close>,
  \<^verbatim>\<open>devProcess\<close> and \<^verbatim>\<open>devProcessStopRequest\<close> as they were. While the session is starting,
  input is ignored altogether.
\<close>

theorem stop_request_acceptance:
  assumes "closureEnv r w = Some (dr, cs)"
  shows "(devStatus cs \<noteq> Some DEV_STARTING \<and> devProcess cs = Some p \<and> p < length (processes w)
            \<and> devProcessStopRequest cs = None \<and> isCtrlC data
          \<longrightarrow> (\<exists>w1. handleInput r data w = Inr w1
                 \<and> devStatusOf (contextPath (runFolder dr)) w1 = Some DEV_STOPPING
                 \<and> stopRequestOf (contextPath (runFolder dr)) w1 = Some (length (stopRequests w))
                 \<and> processes w1 = (processes w)
                      [p := (processes w ! p)\<lparr>killCalls := killCalls (processes w ! p) @ [SIGINT]\<rparr>]
                 \<and> timers w1 = timers w @ [\<lparr>timerState = Scheduled, delay = stopDevModeTimeout w\<rparr>]
                 \<and> stopRequests w1 = stopRequests w @
                      [\<lparr>sigAbortSent = False, devCleaningTimeout = Some (length (timers w)),
                        stopDevProcess = p\<rparr>]))
         \<and> (devStatus cs = Some DEV_STARTING \<or> devProcess cs = None
              \<or> devProcessStopRequest cs \<noteq> None \<or> \<not> isCtrlC data
          \<longrightarrow> (\<forall>w1. handleInput r data w = Inr w1
                 \<longrightarrow> devStatusOf (contextPath (runFolder dr)) w1 = devStatus cs
                   \<and> devProcessOf (contextPath (runFolder dr)) w1 = devProcess cs
                   \<and> stopRequestOf (contextPath (runFolder dr)) w1 = devProcessStopRequest cs
                   \<and> processes w1 = processes w \<and> timers w1 = timers w
                   \<and> stopRequests w1 = stopRequests w))
         \<and> (devStatus cs = Some DEV_STARTING \<longrightarrow> handleInput r data w = Inr w)
         \<and> (devProcess cs = Some p \<and> heapGet (processes w) p = Some pr \<and> exitCode pr = None
              \<and> devProcessStopRequest cs = None
          \<longrightarrow> (\<exists>w1. ptyClose r w = Inr w1
                 \<and> devStatusOf (contextPath (runFolder dr)) w1 = Some DEV_STOPPING
                 \<and> stopRequestOf (contextPath (runFolder dr)) w1 = Some (length (stopRequests w))
                 \<and> processes w1 = (processes w)[p := pr\<lparr>killCalls := killCalls pr @ [SIGINT]\<rparr>]
                 \<and> timers w1 = timers w @ [\<lparr>timerState = Scheduled, delay = stopDevModeTimeout w\<rparr>]
                 \<and> stopRequests w1 = stopRequests w @
                      [\<lparr>sigAbortSent = False, devCleaningTimeout = Some (length (timers w)),
                        stopDevProcess = p\<rparr>]))
         \<and> (devProcess cs = None \<or> devProcessStopRequest cs \<noteq> None
              \<or> (devProcess cs = Some p \<and> heapGet (processes w) p = Some pr
                   \<and> exitCode pr \<noteq> None)
          \<longrightarrow> (\<forall>w1. ptyClose r w = Inr w1
                 \<longrightarrow> devStatusOf (contextPath (runFolder dr)) w1 = devStatus cs
                   \<and> devProcessOf (contextPath (runFolder dr)) w1 = devProcess cs
                   \<and> stopRequestOf (contextPath (runFolder dr)) w1 = devProcessStopRequest cs
                   \<and> processes w1 = processes w \<and> timers w1 = timers w
                   \<and> stopRequests w1 = stopRequests w))"
    (is "?A \<and> ?B \<and> ?C \<and> ?D \<and> ?E")
proof -
  have A: ?A using handleInput_accept [OF assms, of p data] by simp
  have B: ?B using handleInput_reject [OF assms, of data] by simp
  have C: ?C using assms by (simp add: handleInput_def)
  have D: ?D using ptyClose_accept [OF assms, of p pr] by simp
  have E: ?E using ptyClose_reject [OF assms, of p pr] by simp
  from A B C D E show ?thesis by (intro conjI)
qed

theorem stop_request_acceptance_witness:
  "devStatusOf ''/ws/app'' runningWorld = Some DEV_RUNNING
   \<and> (\<exists>w1. handleInput 0 [CHR 0x03] runningWorld = Inr w1
         \<and> devStatusOf ''/ws/app'' w1 = Some DEV_STOPPING
         \<and> stopRequestOf ''/ws/app'' w1 = Some 0
         \<and> processes w1 = [\<lparr>exitCode = None, killCalls = [SIGINT]\<rparr>]
         \<and> timers w1 = [\<lparr>timerState = Scheduled, delay = 20000\<rparr>])
   \<and> devStatusOf ''/ws/app'' startingWorld = Some DEV_STARTING
   \<and> handleInput 0 [CHR 0x03] startingWorld = Inr startingWorld
   \<and> (\<exists>w1. handleInput 0 [CHR 0x03] stoppingWorld = Inr w1
         \<and> processes w1 = processes stoppingWorld \<and> timers w1 = timers stoppingWorld)
   \<and> (\<exists>w1. ptyClose 0 runningWorld = Inr w1
         \<and> devStatusOf ''/ws/app'' w1 = Some DEV_STOPPING
         \<and> processes w1 = [\<lparr>exitCode = None, killCalls = [SIGINT]\<rparr>]
         \<and> timers w1 = [\<lparr>timerState = Scheduled, delay = 20000\<rparr>])
   \<and> (\<exists>w1. ptyClose 0 startingWorld = Inr w1
         \<and> processes w1 = processes startingWorld \<and> timers w1 = timers startingWorld)
   \<and> (\<exists>w1. ptyClose 0 (runningWorld\<lparr>processes := [\<lparr>exitCode = Some 0, killCalls = []\<rparr>]\<rparr>) = Inr w1
         \<and> devStatusOf ''/ws/app'' w1 = Some DEV_RUNNING
         \<and> processes w1 = [\<lparr>exitCode = Some 0, killCalls = []\<rparr>]
         \<and> timers w1 = [])"
proof -
  let ?csR = "\<lparr> devTerminal = Some \<lparr>terminalName = ''/ws/app'', shown = True, disposed = False\<rparr>,
              devProcess = Some 0, devStatus = Some DEV_RUNNING, contextValue = None,
              devProcessStopRequest = None, debugStatus = None, deployStatus = None,
              runOn = None \<rparr>"
  let ?drR = "\<lparr> runFolder = appFolder, runRunOn = None, runDevProcess = Some 0,
                 runSpawnPending = False,
                 outputEmitter = [''Starting odo dev'' @ [CHR 0x0D, CHR 0x0A]] \<rparr>"
  let ?csS = "\<lparr> devTerminal = Some \<lparr>terminalName = ''/ws/app'', shown = False, disposed = False\<rparr>,
              devProcess = None, devStatus = Some DEV_STARTING, contextValue = None,
              devProcessStopRequest = None, debugStatus = None, deployStatus = None,
              runOn = None \<rparr>"
  let ?csP = "\<lparr> devTerminal = Some \<lparr>terminalName = ''/ws/app'', shown = True, disposed = False\<rparr>,
              devProcess = Some 0, devStatus = Some DEV_STOPPING, contextValue = None,
              devProcessStopRequest = Some 0, debugStatus = None, deployStatus = None,
              runOn = None \<rparr>"
  let ?drP = "\<lparr> runFolder = appFolder, runRunOn = None, runDevProcess = Some 0,
                 runSpawnPending = False,
                 outputEmitter = [''Starting odo dev'' @ [CHR 0x0D, CHR 0x0A],
                                  ''^C'' @ [CHR 0x0D, CHR 0x0A]] \<rparr>"
  let ?pr = "\<lparr>exitCode = None, killCalls = []\<rparr>"
  have hR: "closureEnv 0 runningWorld = Some (?drR, ?csR)"
    by (simp add: runningWorld_eq closureEnv_def heapGet_def appFolder_def)
  have hS: "closureEnv 0 startingWorld = Some (?drR, ?csS)"
    by (simp add: startingWorld_eq closureEnv_def heapGet_def appFolder_def)
  have hP: "closureEnv 0 stoppingWorld = Some (?drP, ?csP)"
    by (simp add: stoppingWorld_eq closureEnv_def heapGet_def appFolder_def)
  have a: "devStatusOf ''/ws/app'' runningWorld = Some DEV_RUNNING"
    by (simp add: runningWorld_eq devStatusOf_def)
  have b: "devStatusOf ''/ws/app'' startingWorld = Some DEV_STARTING"
    by (simp add: startingWorld_eq devStatusOf_def)
  have pR: "processes runningWorld = [?pr]"
      "timers runningWorld = []" "stopRequests runningWorld = []"
      "stopDevModeTimeout runningWorld = 20000"
      "heapGet (processes runningWorld) 0 = Some ?pr"
    by (simp_all add: runningWorld_eq heapGet_def)
  note running = stop_request_acceptance [OF hR, of 0 "[CHR 0x03]" ?pr]
  note starting = stop_request_acceptance [OF hS, of 0 "[CHR 0x03]" ?pr]
  note stopping = stop_request_acceptance [OF hP, of 0 "[CHR 0x03]" ?pr]
  from running pR
  have R: "(\<exists>w1. handleInput 0 [CHR 0x03] runningWorld = Inr w1
              \<and> devStatusOf ''/ws/app'' w1 = Some DEV_STOPPING
              \<and> stopRequestOf ''/ws/app'' w1 = Some 0
              \<and> processes w1 = [\<lparr>exitCode = None, killCalls = [SIGINT]\<rparr>]
              \<and> timers w1 = [\<lparr>timerState = Scheduled, delay = 20000\<rparr>]
              \<and> stopRequests w1
                  = [\<lparr>sigAbortSent = False, devCleaningTimeout = Some 0, stopDevProcess = 0\<rparr>])
           \<and> (\<exists>w1. ptyClose 0 runningWorld = Inr w1
              \<and> devStatusOf ''/ws/app'' w1 = Some DEV_STOPPING
              \<and> stopRequestOf ''/ws/app'' w1 = Some 0
              \<and> processes w1 = [\<lparr>exitCode = None, killCalls = [SIGINT]\<rparr>]
              \<and> timers w1 = [\<lparr>timerState = Scheduled, delay = 20000\<rparr>]
              \<and> stopRequests w1
                  = [\<lparr>sigAbortSent = False, devCleaningTimeout = Some 0, stopDevProcess = 0\<rparr>])"
    by (simp add: appFolder_def)
  then obtain wa wb where
    wa: "handleInput 0 [CHR 0x03] runningWorld = Inr wa"
      "devStatusOf ''/ws/app'' wa = Some DEV_STOPPING"
      "stopRequestOf ''/ws/app'' wa = Some 0"
      "processes wa = [\<lparr>exitCode = None, killCalls = [SIGINT]\<rparr>]"
      "timers wa = [\<lparr>timerState = Scheduled, delay = 20000\<rparr>]"
    and wb: "ptyClose 0 runningWorld = Inr wb"
      "devStatusOf ''/ws/app'' wb = Some DEV_STOPPING"
      "processes wb = [\<lparr>exitCode = None, killCalls = [SIGINT]\<rparr>]"
      "timers wb = [\<lparr>timerState = Scheduled, delay = 20000\<rparr>]"
    by (elim conjE exE)
  from wa
  have c: "\<exists>w1. handleInput 0 [CHR 0x03] runningWorld = Inr w1
         \<and> devStatusOf ''/ws/app'' w1 = Some DEV_STOPPING
         \<and> stopRequestOf ''/ws/app'' w1 = Some 0
         \<and> processes w1 = [\<lparr>exitCode = None, killCalls = [SIGINT]\<rparr>]
         \<and> timers w1 = [\<lparr>timerState = Scheduled, delay = 20000\<rparr>]"
    by (intro exI [of _ wa] conjI)
  from wb
  have f: "\<exists>w1. ptyClose 0 runningWorld = Inr w1
         \<and> devStatusOf ''/ws/app'' w1 = Some DEV_STOPPING
         \<and> processes w1 = [\<lparr>exitCode = None, killCalls = [SIGINT]\<rparr>]
         \<and> timers w1 = [\<lparr>timerState = Scheduled, delay = 20000\<rparr>]"
    by (intro exI [of _ wb] conjI)
  from starting [THEN conjunct2, THEN conjunct2, THEN conjunct1]
  have d: "handleInput 0 [CHR 0x03] startingWorld = Inr startingWorld"
    by simp
  have "devStatus ?csP = Some DEV_STARTING \<or> devProcess ?csP = None
          \<or> devProcessStopRequest ?csP \<noteq> None \<or> \<not> isCtrlC [CHR 0x03]"
    by simp
  with stopping [THEN conjunct2, THEN conjunct1]
  have "\<forall>w1. handleInput 0 [CHR 0x03] stoppingWorld = Inr w1
          \<longrightarrow> devStatusOf (contextPath (runFolder ?drP)) w1 = devStatus ?csP
            \<and> devProcessOf (contextPath (runFolder ?drP)) w1 = devProcess ?csP
            \<and> stopRequestOf (contextPath (runFolder ?drP)) w1 = devProcessStopRequest ?csP
            \<and> processes w1 = processes stoppingWorld \<and> timers w1 = timers stoppingWorld
            \<and> stopRequests w1 = stopRequests stoppingWorld"
    by (rule mp)
  moreover obtain wc where "handleInput 0 [CHR 0x03] stoppingWorld = Inr wc"
    by (simp add: handleInput_def hP)
  ultimately have e: "\<exists>w1. handleInput 0 [CHR 0x03] stoppingWorld = Inr w1
         \<and> processes w1 = processes stoppingWorld \<and> timers w1 = timers stoppingWorld"
    by fast
  have "devProcess ?csS = None \<or> devProcessStopRequest ?csS \<noteq> None
          \<or> (devProcess ?csS = Some 0 \<and> heapGet (processes startingWorld) 0 = Some ?pr
               \<and> exitCode ?pr \<noteq> None)"
    by simp
  with starting [THEN conjunct2, THEN conjunct2, THEN conjunct2, THEN conjunct2]
  have "\<forall>w1. ptyClose 0 startingWorld = Inr w1
          \<longrightarrow> devStatusOf (contextPath (runFolder ?drR)) w1 = devStatus ?csS
            \<and> devProcessOf (contextPath (runFolder ?drR)) w1 = devProcess ?csS
            \<and> stopRequestOf (contextPath (runFolder ?drR)) w1 = devProcessStopRequest ?csS
            \<and> processes w1 = processes startingWorld \<and> timers w1 = timers startingWorld
            \<and> stopRequests w1 = stopRequests startingWorld"
    by (rule mp)
  moreover obtain wd where "ptyClose 0 startingWorld = Inr wd"
    by (simp add: ptyClose_def hS Let_def)
  ultimately have g: "\<exists>w1. ptyClose 0 startingWorld = Inr w1
         \<and> processes w1 = processes startingWorld \<and> timers w1 = timers startingWorld"
    by fast
  let ?wx = "runningWorld\<lparr>processes := [\<lparr>exitCode = Some 0, killCalls = []\<rparr>]\<rparr>"
  let ?px = "\<lparr>exitCode = Some 0, killCalls = []\<rparr>"
  have hX: "closureEnv 0 ?wx = Some (?drR, ?csR)"
    by (simp add: runningWorld_eq closureEnv_def heapGet_def appFolder_def)
  have "devProcess ?csR = None \<or> devProcessStopRequest ?csR \<noteq> None
          \<or> (devProcess ?csR = Some 0 \<and> heapGet (processes ?wx) 0 = Some ?px
               \<and> exitCode ?px \<noteq> None)"
    by (simp add: heapGet_def)
  with stop_request_acceptance [OF hX, of 0 "[CHR 0x03]" ?px,
      THEN conjunct2, THEN conjunct2, THEN conjunct2, THEN conjunct2]
  have "\<forall>w1. ptyClose 0 ?wx = Inr w1
          \<longrightarrow> devStatusOf (contextPath (runFolder ?drR)) w1 = devStatus ?csR
            \<and> devProcessOf (contextPath (runFolder ?drR)) w1 = devProcess ?csR
            \<and> stopRequestOf (contextPath (runFolder ?drR)) w1 = devProcessStopRequest ?csR
            \<and> processes w1 = processes ?wx \<and> timers w1 = timers ?wx
            \<and> stopRequests w1 = stopRequests ?wx"
    by (rule mp)
  moreover obtain wx where "ptyClose 0 ?wx = Inr wx"
    by (simp add: ptyClose_def hX heapGet_def Let_def)
  ultimately have "devStatusOf (contextPath (runFolder ?drR)) wx = devStatus ?csR
      \<and> processes wx = processes ?wx \<and> timers wx = timers ?wx"
      and wx: "ptyClose 0 ?wx = Inr wx"
    by fast+
  then have "devStatusOf ''/ws/app'' wx = Some DEV_RUNNING"
      "processes wx = [\<lparr>exitCode = Some 0, killCalls = []\<rparr>]" "timers wx = []"
    by (simp_all add: appFolder_def runningWorld_eq)
  with wx have h: "\<exists>w1. ptyClose 0 ?wx = Inr w1
         \<and> devStatusOf ''/ws/app'' w1 = Some DEV_RUNNING
         \<and> processes w1 = [\<lparr>exitCode = Some 0, killCalls = []\<rparr>]
         \<and> timers w1 = []"
    by (intro exI [of _ wx] conjI)
  from a c b d e f g h show ?thesis by (intro conjI)
qed

text \<open>
  The claim as stated accepts a stop request while the session is starting. In
  \<open>startingWorld\<close> Ctrl-C changes nothing, and closing the terminal sends no signal and
  starts no timer.
\<close>

theorem stop_while_starting_counterexample:
  "reachable startingWorld
   \<and> devStatusOf ''/ws/app'' startingWorld = Some DEV_STARTING
   \<and> stopRequestOf ''/ws/app'' startingWorld = None
   \<and> handleInput 0 [CHR 0x03] startingWorld = Inr startingWorld
   \<and> processes (dispatch [PtyClose 0] startingWorld) = [\<lparr>exitCode = None, killCalls = []\<rparr>]
   \<and> devStatusOf ''/ws/app'' (dispatch [PtyClose 0] startingWorld) = Some DEV_STARTING
   \<and> timers (dispatch [PtyClose 0] startingWorld) = []"
  using reachable_startingWorld
  by (simp add: startingWorld_eq appFolder_def reader_defs handleInput_def ptyClose_def
        closureEnv_def heapGet_def setState_def Let_def)

subsection \<open>Forcing the exit\<close>

lemma forceExitDevMode_without_request:
  assumes "stopRequestOf (contextPath folder) w = None"
  shows "forceExitDevMode folder w = Inr w \<or> forceExitDevMode folder w = Inl TypeError
         \<or> forceExitDevMode folder w = Inl NoSuchObject"
  using assms
  by (auto simp: forceExitDevMode_def stopRequestOf_def split: option.splits)

lemma forceExitDevMode_running:
  assumes "componentStates w (contextPath folder) = Some cs"
    and "devProcess cs = Some p" and "heapGet (processes w) p = Some pr" and "exitCode pr = None"
    and "devProcessStopRequest cs = None"
  shows "forceExitDevMode folder w = Inl TypeError"
  using assms by (simp add: forceExitDevMode_def)

lemma forceExitDevMode_stopping:
  assumes "componentStates w (contextPath folder) = Some cs"
    and "devProcess cs = Some p" and "heapGet (processes w) p = Some pr" and "exitCode pr = None"
    and "devProcessStopRequest cs = Some sr" and "heapGet (stopRequests w) sr = Some q"
    and "heapGet (processes w) (stopDevProcess q) = Some pq"
  shows "forceExitDevMode folder w
           = Inr (w\<lparr>stopRequests := (stopRequests w)[sr := q\<lparr>sigAbortSent := True\<rparr>],
                    processes := (processes w)
                      [stopDevProcess q := pq\<lparr>killCalls := killCalls pq @ [SIGABRT]\<rparr>]\<rparr>)"
proof -
  from assms(6) have sr: "sr < length (stopRequests w)" "stopRequests w ! sr = q"
    by (simp_all add: heapGet_def split: if_splits)
  from assms(7) have pq: "stopDevProcess q < length (processes w)"
      "processes w ! stopDevProcess q = pq"
    by (simp_all add: heapGet_def split: if_splits)
  show ?thesis
    using assms(1-5) sr pq
    by (simp add: forceExitDevMode_def sendSigabrt_def kill_def Let_def)
qed

lemma forceExitDevMode_twice:
  assumes "componentStates w (contextPath folder) = Some cs"
    and "devProcess cs = Some p" and "heapGet (processes w) p = Some pr" and "exitCode pr = None"
    and "devProcessStopRequest cs = Some sr" and "heapGet (stopRequests w) sr = Some q"
    and "heapGet (processes w) (stopDevProcess q) = Some pq"
  shows "forceExitDevMode folder
           (w\<lparr>stopRequests := (stopRequests w)[sr := q\<lparr>sigAbortSent := True\<rparr>],
              processes := (processes w)
                [stopDevProcess q := pq\<lparr>killCalls := killCalls pq @ [SIGABRT]\<rparr>]\<rparr>)
           = Inr (w\<lparr>stopRequests := (stopRequests w)[sr := q\<lparr>sigAbortSent := True\<rparr>],
                    processes := (processes w)
                      [stopDevProcess q := pq\<lparr>killCalls := killCalls pq @ [SIGABRT, SIGABRT]\<rparr>]\<rparr>)"
proof -
  let ?w1 = "w\<lparr>stopRequests := (stopRequests w)[sr := q\<lparr>sigAbortSent := True\<rparr>],
              processes := (processes w)
                [stopDevProcess q := pq\<lparr>killCalls := killCalls pq @ [SIGABRT]\<rparr>]\<rparr>"
  from assms(3) have p: "p < length (processes w)" "processes w ! p = pr"
    by (simp_all add: heapGet_def split: if_splits)
  from assms(6) have sr: "sr < length (stopRequests w)" "stopRequests w ! sr = q"
    by (simp_all add: heapGet_def split: if_splits)
  from assms(7) have pq: "stopDevProcess q < length (processes w)"
      "processes w ! stopDevProcess q = pq"
    by (simp_all add: heapGet_def split: if_splits)
  have a: "componentStates ?w1 (contextPath folder) = Some cs"
    using assms(1) by simp
  obtain pr1 where b: "heapGet (processes ?w1) p = Some pr1" "exitCode pr1 = None"
    using p pq assms(4) by (cases "p = stopDevProcess q") (auto simp: heapGet_def)
  have c: "heapGet (stopRequests ?w1) sr = Some (q\<lparr>sigAbortSent := True\<rparr>)"
    using sr by (simp add: heapGet_def)
  have d: "heapGet (processes ?w1) (stopDevProcess (q\<lparr>sigAbortSent := True\<rparr>))
             = Some (pq\<lparr>killCalls := killCalls pq @ [SIGABRT]\<rparr>)"
    using pq by (simp add: heapGet_def)
  from forceExitDevMode_stopping [OF a assms(2) b assms(5) c d]
  show ?thesis by simp
qed

text \<open>
  Claim C6, as the code has it. Without a stop request \<^verbatim>\<open>forceExitDevMode\<close> sends no signal
  and changes nothing: it returns silently when the session holds no process (or one that
  has an exit code), and throws a \<^verbatim>\<open>TypeError\<close> when the session holds a process that has
  not exited. With a stop request and a process that has not exited, every call, a repeated
  one included, calls \<^verbatim>\<open>kill('SIGABRT')\<close> again; apart from that further signal the repeated
  call changes nothing (\<^verbatim>\<open>sigAbortSent\<close> is already set, the session and the timer are
  untouched).
\<close>

theorem forceExitDevMode_effect:
  "(stopRequestOf (contextPath folder) w = None
      \<longrightarrow> forceExitDevMode folder w = Inr w \<or> forceExitDevMode folder w = Inl TypeError
          \<or> forceExitDevMode folder w = Inl NoSuchObject)
   \<and> (componentStates w (contextPath folder) = Some cs
        \<and> devProcess cs = Some p \<and> heapGet (processes w) p = Some pr \<and> exitCode pr = None
        \<and> devProcessStopRequest cs = None
      \<longrightarrow> forceExitDevMode folder w = Inl TypeError)
   \<and> (componentStates w (contextPath folder) = Some cs
        \<and> devProcess cs = Some p \<and> heapGet (processes w) p = Some pr \<and> exitCode pr = None
        \<and> devProcessStopRequest cs = Some sr \<and> heapGet (stopRequests w) sr = Some q
        \<and> heapGet (processes w) (stopDevProcess q) = Some pq
      \<longrightarrow> forceExitDevMode folder w
            = Inr (w\<lparr>stopRequests := (stopRequests w)[sr := q\<lparr>sigAbortSent := True\<rparr>],
                     processes := (processes w)
                       [stopDevProcess q := pq\<lparr>killCalls := killCalls pq @ [SIGABRT]\<rparr>]\<rparr>)
          \<and> forceExitDevMode folder
              (w\<lparr>stopRequests := (stopRequests w)[sr := q\<lparr>sigAbortSent := True\<rparr>],
                 processes := (processes w)
                   [stopDevProcess q := pq\<lparr>killCalls := killCalls pq @ [SIGABRT]\<rparr>]\<rparr>)
            = Inr (w\<lparr>stopRequests := (stopRequests w)[sr := q\<lparr>sigAbortSent := True\<rparr>],
                     processes := (processes w)
                       [stopDevProcess q := pq\<lparr>killCalls := killCalls pq @ [SIGABRT, SIGABRT]\<rparr>]\<rparr>))"
    (is "?A \<and> ?B \<and> ?C")
proof -
  have A: ?A using forceExitDevMode_without_request [of folder w] by simp
  have B: ?B using forceExitDevMode_running [of w folder cs p pr] by simp
  have C: ?C
    using forceExitDevMode_stopping [of w folder cs p pr sr q pq]
      forceExitDevMode_twice [of w folder cs p pr sr q pq]
    by simp
  from A B C show ?thesis by (intro conjI)
qed

theorem forceExitDevMode_effect_witness:
  "stopRequestOf ''/ws/app'' exitedWorld = None
   \<and> forceExitDevMode appFolder exitedWorld = Inr exitedWorld
   \<and> devStatusOf ''/ws/app'' runningWorld = Some DEV_RUNNING
   \<and> forceExitDevMode appFolder runningWorld = Inl TypeError
   \<and> devStatusOf ''/ws/app'' stoppingWorld = Some DEV_STOPPING
   \<and> forceExitDevMode appFolder stoppingWorld
       = Inr (stoppingWorld
               \<lparr>stopRequests :=
                  [\<lparr>sigAbortSent = True, devCleaningTimeout = Some 0, stopDevProcess = 0\<rparr>],
                processes := [\<lparr>exitCode = None, killCalls = [SIGINT, SIGABRT]\<rparr>]\<rparr>)
   \<and> forceExitDevMode appFolder
         (stoppingWorld
            \<lparr>stopRequests :=
               [\<lparr>sigAbortSent = True, devCleaningTimeout = Some 0, stopDevProcess = 0\<rparr>],
             processes := [\<lparr>exitCode = None, killCalls = [SIGINT, SIGABRT]\<rparr>]\<rparr>)
       = Inr (stoppingWorld
               \<lparr>stopRequests :=
                  [\<lparr>sigAbortSent = True, devCleaningTimeout = Some 0, stopDevProcess = 0\<rparr>],
                processes := [\<lparr>exitCode = None, killCalls = [SIGINT, SIGABRT, SIGABRT]\<rparr>]\<rparr>)"
proof -
  let ?csR = "\<lparr> devTerminal = Some \<lparr>terminalName = ''/ws/app'', shown = True, disposed = False\<rparr>,
              devProcess = Some 0, devStatus = Some DEV_RUNNING, contextValue = None,
              devProcessStopRequest = None, debugStatus = None, deployStatus = None,
              runOn = None \<rparr>"
  let ?csP = "\<lparr> devTerminal = Some \<lparr>terminalName = ''/ws/app'', shown = True, disposed = False\<rparr>,
              devProcess = Some 0, devStatus = Some DEV_STOPPING, contextValue = None,
              devProcessStopRequest = Some 0, debugStatus = None, deployStatus = None,
              runOn = None \<rparr>"
  let ?q = "\<lparr>sigAbortSent = False, devCleaningTimeout = Some 0, stopDevProcess = 0\<rparr>"
  let ?pr = "\<lparr>exitCode = None, killCalls = []\<rparr>"
  let ?pq = "\<lparr>exitCode = None, killCalls = [SIGINT]\<rparr>"
  have e1: "stopRequestOf (contextPath appFolder) exitedWorld = None"
    by (simp add: exitedWorld_eq stopRequestOf_def appFolder_def)
  have e2: "forceExitDevMode appFolder exitedWorld \<noteq> Inl TypeError"
      "forceExitDevMode appFolder exitedWorld \<noteq> Inl NoSuchObject"
    by (simp_all add: exitedWorld_eq forceExitDevMode_def appFolder_def)
  from forceExitDevMode_effect [of appFolder exitedWorld, THEN conjunct1] e1 e2
  have a: "forceExitDevMode appFolder exitedWorld = Inr exitedWorld"
    by fast
  have r: "componentStates runningWorld (contextPath appFolder) = Some ?csR
        \<and> devProcess ?csR = Some 0 \<and> heapGet (processes runningWorld) 0 = Some ?pr
        \<and> exitCode ?pr = None \<and> devProcessStopRequest ?csR = None"
    by (simp add: runningWorld_eq heapGet_def appFolder_def)
  from forceExitDevMode_effect [of appFolder runningWorld ?csR 0 ?pr,
      THEN conjunct2, THEN conjunct1] r
  have b: "forceExitDevMode appFolder runningWorld = Inl TypeError"
    by (rule mp)
  have p: "componentStates stoppingWorld (contextPath appFolder) = Some ?csP
        \<and> devProcess ?csP = Some 0 \<and> heapGet (processes stoppingWorld) 0 = Some ?pq
        \<and> exitCode ?pq = None \<and> devProcessStopRequest ?csP = Some 0
        \<and> heapGet (stopRequests stoppingWorld) 0 = Some ?q
        \<and> heapGet (processes stoppingWorld) (stopDevProcess ?q) = Some ?pq"
    by (simp add: stoppingWorld_eq heapGet_def appFolder_def)
  from forceExitDevMode_effect [of appFolder stoppingWorld ?csP 0 ?pq 0 ?q ?pq,
      THEN conjunct2, THEN conjunct2] p
  have c: "forceExitDevMode appFolder stoppingWorld
            = Inr (stoppingWorld\<lparr>stopRequests := (stopRequests stoppingWorld)[0 := ?q\<lparr>sigAbortSent := True\<rparr>],
                     processes := (processes stoppingWorld)
                       [stopDevProcess ?q := ?pq\<lparr>killCalls := killCalls ?pq @ [SIGABRT]\<rparr>]\<rparr>)
          \<and> forceExitDevMode appFolder
              (stoppingWorld\<lparr>stopRequests := (stopRequests stoppingWorld)[0 := ?q\<lparr>sigAbortSent := True\<rparr>],
                 processes := (processes stoppingWorld)
                   [stopDevProcess ?q := ?pq\<lparr>killCalls := killCalls ?pq @ [SIGABRT]\<rparr>]\<rparr>)
            = Inr (stoppingWorld\<lparr>stopRequests := (stopRequests stoppingWorld)[0 := ?q\<lparr>sigAbortSent := True\<rparr>],
                     processes := (processes stoppingWorld)
                       [stopDevProcess ?q := ?pq\<lparr>killCalls := killCalls ?pq @ [SIGABRT, SIGABRT]\<rparr>]\<rparr>)"
    by (rule mp)
  have l: "(stopRequests stoppingWorld)[0 := ?q\<lparr>sigAbortSent := True\<rparr>]
             = [\<lparr>sigAbortSent = True, devCleaningTimeout = Some 0, stopDevProcess = 0\<rparr>]"
      "(processes stoppingWorld)[stopDevProcess ?q := ?pq\<lparr>killCalls := killCalls ?pq @ [SIGABRT]\<rparr>]
             = [\<lparr>exitCode = None, killCalls = [SIGINT, SIGABRT]\<rparr>]"
      "(processes stoppingWorld)[stopDevProcess ?q := ?pq\<lparr>killCalls := killCalls ?pq @ [SIGABRT, SIGABRT]\<rparr>]
             = [\<lparr>exitCode = None, killCalls = [SIGINT, SIGABRT, SIGABRT]\<rparr>]"
    by (simp_all add: stoppingWorld_eq)
  have s: "stopRequestOf ''/ws/app'' exitedWorld = None"
      "devStatusOf ''/ws/app'' runningWorld = Some DEV_RUNNING"
      "devStatusOf ''/ws/app'' stoppingWorld = Some DEV_STOPPING"
    by (simp_all add: exitedWorld_eq runningWorld_eq stoppingWorld_eq reader_defs)
  from c have c': "forceExitDevMode appFolder stoppingWorld
       = Inr (stoppingWorld
               \<lparr>stopRequests :=
                  [\<lparr>sigAbortSent = True, devCleaningTimeout = Some 0, stopDevProcess = 0\<rparr>],
                processes := [\<lparr>exitCode = None, killCalls = [SIGINT, SIGABRT]\<rparr>]\<rparr>)"
     "forceExitDevMode appFolder
         (stoppingWorld
            \<lparr>stopRequests :=
               [\<lparr>sigAbortSent = True, devCleaningTimeout = Some 0, stopDevProcess = 0\<rparr>],
             processes := [\<lparr>exitCode = None, killCalls = [SIGINT, SIGABRT]\<rparr>]\<rparr>)
       = Inr (stoppingWorld
               \<lparr>stopRequests :=
                  [\<lparr>sigAbortSent = True, devCleaningTimeout = Some 0, stopDevProcess = 0\<rparr>],
                processes := [\<lparr>exitCode = None, killCalls = [SIGINT, SIGABRT, SIGABRT]\<rparr>]\<rparr>)"
    unfolding l by (rule conjunct1, rule conjunct2)
  from s(1) a s(2) b s(3) c' show ?thesis by (intro conjI)
qed

text \<open>
  The claim as stated has a repeated call deliver nothing beyond the first. In
  \<open>stoppingWorld\<close> the second call sends a second \<^verbatim>\<open>SIGABRT\<close>.
\<close>

theorem forceExitDevMode_repeated_counterexample:
  "devStatusOf ''/ws/app'' stoppingWorld = Some DEV_STOPPING
   \<and> processes (dispatch [ForceExitDevMode appFolder] stoppingWorld)
       = [\<lparr>exitCode = None, killCalls = [SIGINT, SIGABRT]\<rparr>]
   \<and> processes (dispatch [ForceExitDevMode appFolder, ForceExitDevMode appFolder] stoppingWorld)
       = [\<lparr>exitCode = None, killCalls = [SIGINT, SIGABRT, SIGABRT]\<rparr>]
   \<and> dispatch [ForceExitDevMode appFolder, ForceExitDevMode appFolder] stoppingWorld
       \<noteq> dispatch [ForceExitDevMode appFolder] stoppingWorld"
proof -
  have a: "devStatusOf ''/ws/app'' stoppingWorld = Some DEV_STOPPING"
    by (simp add: stoppingWorld_eq devStatusOf_def)
  have b: "processes (dispatch [ForceExitDevMode appFolder] stoppingWorld)
       = [\<lparr>exitCode = None, killCalls = [SIGINT, SIGABRT]\<rparr>]"
    by (simp add: stoppingWorld_eq appFolder_def forceExitDevMode_def sendSigabrt_def kill_def
          heapGet_def Let_def)
  have c: "processes (dispatch [ForceExitDevMode appFolder, ForceExitDevMode appFolder] stoppingWorld)
       = [\<lparr>exitCode = None, killCalls = [SIGINT, SIGABRT, SIGABRT]\<rparr>]"
    by (simp add: stoppingWorld_eq appFolder_def forceExitDevMode_def sendSigabrt_def kill_def
          heapGet_def Let_def)
  from b c have d: "dispatch [ForceExitDevMode appFolder, ForceExitDevMode appFolder] stoppingWorld
       \<noteq> dispatch [ForceExitDevMode appFolder] stoppingWorld"
    by auto
  from a b c d show ?thesis by (intro conjI)
qed

subsection \<open>Sessions and their process\<close>

lemma sessionsHoldProcess_setState:
  assumes "sessionsHoldProcess w" and "holdsProcess cs"
  shows "sessionsHoldProcess (setState ctx cs w)"
  using assms by (auto simp: sessionsHoldProcess_def setState_def)

lemma sessionsHoldProcess_frame:
  assumes "sessionsHoldProcess w" and "componentStates w1 = componentStates w"
  shows "sessionsHoldProcess w1"
  using assms by (simp add: sessionsHoldProcess_def)

lemma sessionsHoldProcessD:
  assumes "sessionsHoldProcess w" and "componentStates w ctx = Some cs"
  shows "holdsProcess cs"
  using assms by (auto simp: sessionsHoldProcess_def)

lemma closureEnv_holdsProcess:
  assumes "sessionsHoldProcess w" and "closureEnv r w = Some (dr, cs)"
  shows "holdsProcess cs"
  using assms closureEnv_SomeD(3) sessionsHoldProcessD by blast

lemma initialWorld_inv: "sessionsHoldProcess (initialWorld d)"
  by (simp add: sessionsHoldProcess_def initialWorld_def)

lemma getComponentDevState_inv:
  assumes "sessionsHoldProcess w"
  shows "sessionsHoldProcess (snd (getComponentDevState folder w))"
    and "holdsProcess (fst (getComponentDevState folder w))"
proof -
  let ?fresh = "\<lparr> devTerminal = None, devProcess = None,
               devStatus = (if supportsDev folder then Some DEV else None),
               contextValue = None, devProcessStopRequest = None,
               debugStatus = (if supportsDebug folder then Some DEB else None),
               deployStatus = (if supportsDeploy folder then Some DEP else None),
               runOn = None \<rparr>"
  have fresh: "holdsProcess ?fresh"
    by (simp add: holdsProcess_def)
  show "holdsProcess (fst (getComponentDevState folder w))"
  proof (cases "componentStates w (contextPath folder)")
    case None
    then have "fst (getComponentDevState folder w) = ?fresh"
      by (simp add: getComponentDevState_def Let_def split del: if_split)
    with fresh show ?thesis by (simp split del: if_split)
  next
    case (Some cs)
    then have "fst (getComponentDevState folder w) = cs"
      by (simp add: getComponentDevState_def)
    with sessionsHoldProcessD [OF assms Some] show ?thesis by simp
  qed
  show "sessionsHoldProcess (snd (getComponentDevState folder w))"
  proof (cases "componentStates w (contextPath folder)")
    case None
    then have "snd (getComponentDevState folder w) = setState (contextPath folder) ?fresh w"
      by (simp add: getComponentDevState_def Let_def split del: if_split)
    with sessionsHoldProcess_setState [OF assms fresh] show ?thesis
      by (simp split del: if_split)
  next
    case (Some cs)
    then have "snd (getComponentDevState folder w) = w"
      by (simp add: getComponentDevState_def)
    with assms show ?thesis by simp
  qed
qed

lemma devRunOn_start_inv:
  assumes "sessionsHoldProcess w"
  shows "sessionsHoldProcess (devRunOn_start folder ro w)"
proof -
  let ?cs = "fst (getComponentDevState folder w)"
  let ?w1 = "snd (getComponentDevState folder w)"
  have "holdsProcess (?cs\<lparr>devStatus := Some DEV_STARTING, runOn := ro\<rparr>)"
    using getComponentDevState_inv(2) [OF assms, of folder] by (simp add: holdsProcess_def)
  then have "sessionsHoldProcess
               (setState (contextPath folder) (?cs\<lparr>devStatus := Some DEV_STARTING, runOn := ro\<rparr>) ?w1)"
    by (rule sessionsHoldProcess_setState [OF getComponentDevState_inv(1) [OF assms]])
  moreover have "componentStates (devRunOn_start folder ro w)
      = componentStates (setState (contextPath folder) (?cs\<lparr>devStatus := Some DEV_STARTING, runOn := ro\<rparr>) ?w1)"
    by (cases "ro = None")
       (simp_all add: devRunOn_start_def fireStateChanged_def setState_def Let_def split_beta)
  ultimately show ?thesis by (rule sessionsHoldProcess_frame)
qed

lemma devRunOn_terminal_inv:
  assumes "sessionsHoldProcess w"
  shows "sessionsHoldProcess (devRunOn_terminal folder ro w)"
proof (cases "componentStates w (contextPath folder)")
  case None
  with assms show ?thesis by (simp add: devRunOn_terminal_def)
next
  case (Some cs)
  with assms have "holdsProcess cs" by (rule sessionsHoldProcessD)
  then have h: "holdsProcess (cs\<lparr>devTerminal :=
        Some \<lparr>terminalName = contextPath folder, shown = False, disposed = False\<rparr>\<rparr>)"
    by (simp add: holdsProcess_def)
  from assms have "sessionsHoldProcess (w\<lparr>runs := runs w @
                  [\<lparr>runFolder = folder, runRunOn = ro, runDevProcess = None,
                    runSpawnPending = False, outputEmitter = []\<rparr>]\<rparr>)"
    by (simp add: sessionsHoldProcess_def)
  from sessionsHoldProcess_setState [OF this h] Some show ?thesis
    by (simp add: devRunOn_terminal_def)
qed

lemma ptyOpen_inv:
  assumes "sessionsHoldProcess w" and "ptyOpen r cmd w = Inr w1"
  shows "sessionsHoldProcess w1"
proof -
  from assms(2) have "componentStates w1 = componentStates w"
    by (auto simp: ptyOpen_def emit_def Let_def split: option.splits)
  with assms(1) show ?thesis by (rule sessionsHoldProcess_frame)
qed

lemma spawnToolThen_inv:
  assumes "sessionsHoldProcess w" and "spawnToolThen r w = Inr w1"
  shows "sessionsHoldProcess w1"
proof -
  from assms(2) have "componentStates w1 = componentStates w"
    by (auto simp: spawnToolThen_def split: option.splits if_splits)
  with assms(1) show ?thesis by (rule sessionsHoldProcess_frame)
qed

lemma onSpawn_inv:
  assumes "sessionsHoldProcess w" and "onSpawn r w = Inr w1"
  shows "sessionsHoldProcess w1"
proof -
  from assms(2) obtain dr cs p t where env: "closureEnv r w = Some (dr, cs)"
    and w1: "w1 = fireStateChanged (contextPath (runFolder dr))
                   (setState (contextPath (runFolder dr))
                      (cs\<lparr>devTerminal := Some (t\<lparr>shown := True\<rparr>), devProcess := Some p,
                          devStatus := Some DEV_RUNNING\<rparr>) w)"
    by (auto simp: onSpawn_def split: option.splits)
  have "holdsProcess (cs\<lparr>devTerminal := Some (t\<lparr>shown := True\<rparr>), devProcess := Some p,
                          devStatus := Some DEV_RUNNING\<rparr>)"
    by (simp add: holdsProcess_def)
  from sessionsHoldProcess_setState [OF assms(1) this] w1 show ?thesis
    by (simp add: fireStateChanged_def sessionsHoldProcess_def)
qed

lemma onError_inv:
  assumes "sessionsHoldProcess w" and "onError r msg w = Inr w1"
  shows "sessionsHoldProcess w1"
proof -
  from assms(2) obtain dr cs where env: "closureEnv r w = Some (dr, cs)"
    and w1: "w1 = fireStateChanged (contextPath (runFolder dr))
                   (setState (contextPath (runFolder dr)) (cs\<lparr>devStatus := Some DEV\<rparr>)
                      (showMessage (ErrorMessage msg) w))"
    by (auto simp: onError_def split: option.splits)
  from closureEnv_holdsProcess [OF assms(1) env]
  have h: "holdsProcess (cs\<lparr>devStatus := Some DEV\<rparr>)"
    by (simp add: holdsProcess_def)
  from assms(1) have "sessionsHoldProcess (showMessage (ErrorMessage msg) w)"
    by (simp add: sessionsHoldProcess_def showMessage_def)
  from sessionsHoldProcess_setState [OF this h] w1 show ?thesis
    by (simp add: fireStateChanged_def sessionsHoldProcess_def)
qed

lemma onStdout_inv:
  assumes "sessionsHoldProcess w" and "onStdout r chunk w = Inr w1"
  shows "sessionsHoldProcess w1"
proof -
  from assms(2) obtain dr cs where env: "closureEnv r w = Some (dr, cs)"
    and w1: "componentStates w1 = componentStates w
             \<or> componentStates w1
                  = componentStates (setState (contextPath (runFolder dr))
                                       (cs\<lparr>devStatus := Some DEV_RUNNING\<rparr>) w)"
    by (auto simp: onStdout_def emit_def fireStateChanged_def setState_def Let_def
             split: option.splits if_splits)
  from closureEnv_holdsProcess [OF assms(1) env]
  have h: "holdsProcess (cs\<lparr>devStatus := Some DEV_RUNNING\<rparr>)"
    by (simp add: holdsProcess_def)
  from sessionsHoldProcess_setState [OF assms(1) h] w1 assms(1) show ?thesis
    by (auto intro: sessionsHoldProcess_frame)
qed

lemma onStderr_inv:
  assumes "sessionsHoldProcess w" and "onStderr r chunk w = Inr w1"
  shows "sessionsHoldProcess w1"
proof -
  from assms(2) have "componentStates w1 = componentStates w"
    by (auto simp: onStderr_def emit_def Let_def split: option.splits if_splits)
  with assms(1) show ?thesis by (rule sessionsHoldProcess_frame)
qed

lemma dispose_componentStates: "componentStates (dispose sr w) = componentStates w"
  by (simp add: dispose_def Let_def split: option.splits)

lemma onExit_inv:
  assumes "sessionsHoldProcess w" and "onExit r code w = Inr w1"
  shows "sessionsHoldProcess w1"
proof -
  from assms(2) obtain dr cs where env: "closureEnv r w = Some (dr, cs)"
    and w1: "componentStates w1
               = (componentStates w)(contextPath (runFolder dr) \<mapsto>
                    cs\<lparr>devProcessStopRequest := None, devStatus := Some DEV, devProcess := None\<rparr>)"
    by (auto simp: onExit_def emit_def fireStateChanged_def setState_def Let_def
          dispose_componentStates split: option.splits)
  have h: "holdsProcess (cs\<lparr>devProcessStopRequest := None, devStatus := Some DEV, devProcess := None\<rparr>)"
    by (simp add: holdsProcess_def)
  from sessionsHoldProcess_setState [OF assms(1) h, of "contextPath (runFolder dr)"] w1
  show ?thesis by (simp add: sessionsHoldProcess_def setState_def)
qed

lemma interruptDevProcess_inv:
  assumes "sessionsHoldProcess w" and "devProcess cs \<noteq> None"
  shows "sessionsHoldProcess (snd (interruptDevProcess ctx cs p w))"
    and "holdsProcess (fst (interruptDevProcess ctx cs p w))"
proof -
  let ?cs2 = "cs\<lparr>devStatus := Some DEV_STOPPING,
                  devProcessStopRequest := Some (length (stopRequests w))\<rparr>"
  have f: "fst (interruptDevProcess ctx cs p w) = ?cs2"
    by (simp add: interruptDevProcess_def exitDevelopmentMode_def kill_def setState_def
          fireStateChanged_def Let_def)
  have c: "componentStates (snd (interruptDevProcess ctx cs p w)) = (componentStates w)(ctx \<mapsto> ?cs2)"
    by (simp add: interruptDevProcess_def exitDevelopmentMode_def kill_def setState_def
          fireStateChanged_def Let_def)
  from assms(2) have h: "holdsProcess ?cs2" by (simp add: holdsProcess_def)
  with f show "holdsProcess (fst (interruptDevProcess ctx cs p w))" by simp
  from sessionsHoldProcess_setState [OF assms(1) h, of ctx] c
  show "sessionsHoldProcess (snd (interruptDevProcess ctx cs p w))"
    by (simp add: sessionsHoldProcess_def setState_def)
qed

lemma handleInput_inv:
  assumes "sessionsHoldProcess w" and "handleInput r data w = Inr w1"
  shows "sessionsHoldProcess w1"
proof -
  from assms(2) obtain dr cs where env: "closureEnv r w = Some (dr, cs)"
    by (auto simp: handleInput_def split: option.splits)
  note hp = closureEnv_holdsProcess [OF assms(1) env]
  let ?ctx = "contextPath (runFolder dr)"
  from assms(2) env consider
      (same) "w1 = w"
    | (disp) t where "w1 = setState ?ctx (cs\<lparr>devTerminal := Some (t\<lparr>disposed := True\<rparr>)\<rparr>) w"
    | (stop) p where "devProcess cs = Some p"
        "w1 = snd (interruptDevProcess ?ctx cs p (emit r (''^C'' @ [CHR 0x0D, CHR 0x0A]) w))"
    by (auto simp: handleInput_def Let_def split: option.splits if_splits)
  then show ?thesis
  proof cases
    case same
    with assms(1) show ?thesis by simp
  next
    case disp
    from hp have "holdsProcess (cs\<lparr>devTerminal := Some (t\<lparr>disposed := True\<rparr>)\<rparr>)"
      by (simp add: holdsProcess_def)
    from sessionsHoldProcess_setState [OF assms(1) this] disp show ?thesis by simp
  next
    case stop
    from assms(1) have "sessionsHoldProcess (emit r (''^C'' @ [CHR 0x0D, CHR 0x0A]) w)"
      by (simp add: sessionsHoldProcess_def emit_def)
    from interruptDevProcess_inv(1) [OF this] stop show ?thesis by simp
  qed
qed

lemma ptyClose_inv:
  assumes "sessionsHoldProcess w" and "ptyClose r w = Inr w1"
  shows "sessionsHoldProcess w1"
proof -
  from assms(2) obtain dr cs where env: "closureEnv r w = Some (dr, cs)"
    by (auto simp: ptyClose_def split: option.splits)
  note hp = closureEnv_holdsProcess [OF assms(1) env]
  let ?ctx = "contextPath (runFolder dr)"
  from assms(2) env consider
      (plain) "w1 = setState ?ctx (cs\<lparr>devTerminal := None\<rparr>) w"
    | (stop) p where "devProcess cs = Some p"
        "w1 = setState ?ctx ((fst (interruptDevProcess ?ctx cs p w))\<lparr>devTerminal := None\<rparr>)
                (snd (interruptDevProcess ?ctx cs p w))"
    by (auto simp: ptyClose_def Let_def split_beta split: option.splits if_splits)
  then show ?thesis
  proof cases
    case plain
    from hp have "holdsProcess (cs\<lparr>devTerminal := None\<rparr>)"
      by (simp add: holdsProcess_def)
    from sessionsHoldProcess_setState [OF assms(1) this] plain show ?thesis by simp
  next
    case stop
    then have d: "devProcess cs \<noteq> None" by simp
    from interruptDevProcess_inv(2) [OF assms(1) d, of ?ctx p]
    have "holdsProcess ((fst (interruptDevProcess ?ctx cs p w))\<lparr>devTerminal := None\<rparr>)"
      by (simp add: holdsProcess_def)
    from sessionsHoldProcess_setState [OF interruptDevProcess_inv(1) [OF assms(1) d] this] stop
    show ?thesis by simp
  qed
qed

lemma timerExpires_inv:
  assumes "sessionsHoldProcess w" and "timerExpires sr w = Inr w1"
  shows "sessionsHoldProcess w1"
proof -
  from assms(2) have "componentStates w1 = componentStates w"
    by (auto simp: timerExpires_def showMessage_def split: option.splits if_splits)
  with assms(1) show ?thesis by (rule sessionsHoldProcess_frame)
qed

lemma promptAnswered_inv:
  assumes "sessionsHoldProcess w" and "promptAnswered sr action w = Inr w1"
  shows "sessionsHoldProcess w1"
proof -
  from assms(2) have "componentStates w1 = componentStates w"
    by (auto simp: promptAnswered_def showMessage_def refresh_def kill_def
             split: option.splits if_splits)
  with assms(1) show ?thesis by (rule sessionsHoldProcess_frame)
qed

lemma forceExitDevMode_inv:
  assumes "sessionsHoldProcess w" and "forceExitDevMode folder w = Inr w1"
  shows "sessionsHoldProcess w1"
proof -
  from assms(2) have "componentStates w1 = componentStates w"
    by (auto simp: forceExitDevMode_def sendSigabrt_def kill_def Let_def
             split: option.splits if_splits)
  with assms(1) show ?thesis by (rule sessionsHoldProcess_frame)
qed

lemma step_inv:
  assumes "sessionsHoldProcess w" and "step e w = Inr w1"
  shows "sessionsHoldProcess w1"
proof (cases e)
  case (DevRunOnStart folder ro)
  with assms devRunOn_start_inv show ?thesis by auto
next
  case (DevRunOnTerminal folder ro)
  with assms devRunOn_terminal_inv show ?thesis by auto
next
  case (PtyOpen r cmd)
  with assms ptyOpen_inv show ?thesis by auto
next
  case (SpawnToolThen r)
  with assms spawnToolThen_inv show ?thesis by auto
next
  case (OnSpawn r)
  with assms onSpawn_inv show ?thesis by auto
next
  case (OnError r msg)
  with assms onError_inv show ?thesis by auto
next
  case (OnStdout r chunk)
  with assms onStdout_inv show ?thesis by auto
next
  case (OnStderr r chunk)
  with assms onStderr_inv show ?thesis by auto
next
  case (OnExit r code)
  with assms onExit_inv show ?thesis by auto
next
  case (PtyClose r)
  with assms ptyClose_inv show ?thesis by auto
next
  case (HandleInput r data)
  with assms handleInput_inv show ?thesis by auto
next
  case (TimerExpires sr)
  with assms timerExpires_inv show ?thesis by auto
next
  case (PromptAnswered sr action)
  with assms promptAnswered_inv show ?thesis by auto
next
  case (ForceExitDevMode folder)
  with assms forceExitDevMode_inv show ?thesis by auto
qed

lemma reachable_inv: "reachable w \<Longrightarrow> sessionsHoldProcess w"
proof (induction rule: reachable.induct)
  case (reachable_init d)
  show ?case by (rule initialWorld_inv)
next
  case (reachable_step w e w1)
  then show ?case using step_inv by blast
qed

lemma onExit_resets:
  assumes "onExit r code w = Inr w1"
  shows "\<exists>dr. heapGet (runs w) r = Some dr
           \<and> devStatusOf (contextPath (runFolder dr)) w1 = Some DEV
           \<and> devProcessOf (contextPath (runFolder dr)) w1 = None
           \<and> stopRequestOf (contextPath (runFolder dr)) w1 = None"
proof -
  from assms obtain dr cs where env: "closureEnv r w = Some (dr, cs)"
    and w1: "componentStates w1
               = (componentStates w)(contextPath (runFolder dr) \<mapsto>
                    cs\<lparr>devProcessStopRequest := None, devStatus := Some DEV, devProcess := None\<rparr>)"
    by (auto simp: onExit_def emit_def fireStateChanged_def setState_def Let_def
          dispose_componentStates split: option.splits)
  from closureEnv_SomeD(1,2) [OF env] have "heapGet (runs w) r = Some dr"
    by (simp add: heapGet_def)
  with w1 show ?thesis by (simp add: reader_defs)
qed

text \<open>
  Claim C7, as the code has it. In every reachable world a session that is stopping holds a
  process, and so does every session that holds a stop request; and the \<^verbatim>\<open>exit\<close> handler
  leaves its session with \<^verbatim>\<open>devStatus\<close> \<^verbatim>\<open>DEV\<close> and without a process. The equivalence of the
  claim is not an invariant, as the counterexample below shows.
\<close>

theorem stopping_session_holds_process:
  assumes "reachable w"
  shows "(componentStates w ctx = Some cs
           \<longrightarrow> (devStatus cs = Some DEV_STOPPING \<longrightarrow> devProcess cs \<noteq> None)
             \<and> (devProcessStopRequest cs \<noteq> None \<longrightarrow> devProcess cs \<noteq> None))
         \<and> (onExit r code w = Inr w1
           \<longrightarrow> (\<exists>dr. heapGet (runs w) r = Some dr
                 \<and> devStatusOf (contextPath (runFolder dr)) w1 = Some DEV
                 \<and> devProcessOf (contextPath (runFolder dr)) w1 = None))"
proof (intro conjI impI)
  assume c: "componentStates w ctx = Some cs"
  from reachable_inv [OF assms] c have h: "holdsProcess cs" by (rule sessionsHoldProcessD)
  { assume "devStatus cs = Some DEV_STOPPING"
    with h show "devProcess cs \<noteq> None" by (simp add: holdsProcess_def) }
  { assume "devProcessStopRequest cs \<noteq> None"
    with h show "devProcess cs \<noteq> None" by (simp add: holdsProcess_def) }
next
  assume "onExit r code w = Inr w1"
  from onExit_resets [OF this]
  show "\<exists>dr. heapGet (runs w) r = Some dr
                 \<and> devStatusOf (contextPath (runFolder dr)) w1 = Some DEV
                 \<and> devProcessOf (contextPath (runFolder dr)) w1 = None"
    by blast
qed

lemma reachable_stoppingWorld: "reachable stoppingWorld"
  unfolding stoppingWorld_def runningWorld_def
  by (intro reachable_dispatch reachable_startingWorld)

theorem stopping_session_holds_process_witness:
  "reachable stoppingWorld
   \<and> devStatusOf ''/ws/app'' stoppingWorld = Some DEV_STOPPING
   \<and> stopRequestOf ''/ws/app'' stoppingWorld = Some 0
   \<and> devProcessOf ''/ws/app'' stoppingWorld = Some 0
   \<and> (\<exists>w1. onExit 0 (Some 0) stoppingWorld = Inr w1
         \<and> devStatusOf ''/ws/app'' w1 = Some DEV \<and> devProcessOf ''/ws/app'' w1 = None)"
proof -
  let ?csP = "\<lparr> devTerminal = Some \<lparr>terminalName = ''/ws/app'', shown = True, disposed = False\<rparr>,
              devProcess = Some 0, devStatus = Some DEV_STOPPING, contextValue = None,
              devProcessStopRequest = Some 0, debugStatus = None, deployStatus = None,
              runOn = None \<rparr>"
  have c: "componentStates stoppingWorld ''/ws/app'' = Some ?csP"
    by (simp add: stoppingWorld_eq)
  have s: "devStatus ?csP = Some DEV_STOPPING" "devProcessStopRequest ?csP \<noteq> None"
    by simp_all
  obtain w1 where w1: "onExit 0 (Some 0) stoppingWorld = Inr w1"
    by (simp add: stoppingWorld_eq onExit_def closureEnv_def heapGet_def appFolder_def Let_def)
  have r: "heapGet (runs stoppingWorld) 0 = Some dr \<Longrightarrow> contextPath (runFolder dr) = ''/ws/app''" for dr
    by (auto simp: stoppingWorld_eq heapGet_def appFolder_def)
  note inst = stopping_session_holds_process [OF reachable_stoppingWorld,
      of "''/ws/app''" ?csP 0 "Some 0" w1]
  from inst [THEN conjunct1] c s have p: "devProcess ?csP \<noteq> None"
    by fast
  from inst [THEN conjunct2] w1 r
  have e: "devStatusOf ''/ws/app'' w1 = Some DEV \<and> devProcessOf ''/ws/app'' w1 = None"
    by fastforce
  have a: "devStatusOf ''/ws/app'' stoppingWorld = Some DEV_STOPPING"
      "stopRequestOf ''/ws/app'' stoppingWorld = Some 0"
      "devProcessOf ''/ws/app'' stoppingWorld = Some 0"
    using p by (simp_all add: c reader_defs)
  from w1 e have x: "\<exists>w1. onExit 0 (Some 0) stoppingWorld = Inr w1
         \<and> devStatusOf ''/ws/app'' w1 = Some DEV \<and> devProcessOf ''/ws/app'' w1 = None"
    by (intro exI [of _ w1] conjI) simp_all
  from reachable_stoppingWorld a x show ?thesis by (intro conjI)
qed

text \<open>
  The claim as stated fails in \<open>startingWorld\<close>, and already in the world right after
  \<^verbatim>\<open>devRunOn\<close>: the session is starting and holds no process.
\<close>

theorem starting_without_process_counterexample:
  "reachable startingWorld
   \<and> devStatusOf ''/ws/app'' startingWorld = Some DEV_STARTING
   \<and> devProcessOf ''/ws/app'' startingWorld = None
   \<and> reachable (devRunOn appFolder None (initialWorld 20000))
   \<and> devStatusOf ''/ws/app'' (devRunOn appFolder None (initialWorld 20000)) = Some DEV_STARTING
   \<and> devProcessOf ''/ws/app'' (devRunOn appFolder None (initialWorld 20000)) = None"
proof -
  have "devRunOn appFolder None (initialWorld 20000)
          = dispatch [DevRunOnStart appFolder None, DevRunOnTerminal appFolder None] (initialWorld 20000)"
    by (simp add: devRunOn_def)
  then have r: "reachable (devRunOn appFolder None (initialWorld 20000))"
    by (simp only: reachable_dispatch [OF reachable_init])
  have a: "devStatusOf ''/ws/app'' startingWorld = Some DEV_STARTING"
      "devProcessOf ''/ws/app'' startingWorld = None"
    by (simp_all add: startingWorld_eq reader_defs)
  have b: "devStatusOf ''/ws/app'' (devRunOn appFolder None (initialWorld 20000)) = Some DEV_STARTING"
      "devProcessOf ''/ws/app'' (devRunOn appFolder None (initialWorld 20000)) = None"
    by (simp_all add: reader_defs handler_defs initialWorld_def appFolder_def)
  from reachable_startingWorld a r b show ?thesis by (intro conjI)
qed

subsection \<open>A spawn error\<close>

text \<open>
  Claim C8. The \<^verbatim>\<open>error\<close> handler of the dev process sets \<^verbatim>\<open>devStatus\<close> to \<^verbatim>\<open>DEV\<close>, shows
  the error's message as an error message and fires a change notification. It starts
  nothing: the processes and the closures (with their pending calls of \<^verbatim>\<open>spawnTool\<close>) are
  those from before the event.
\<close>

theorem spawn_error_reverts:
  assumes "closureEnv r w = Some (dr, cs)"
    and "runDevProcess dr = Some p"
  shows "\<exists>w1. onError r msg w = Inr w1
           \<and> devStatusOf (contextPath (runFolder dr)) w1 = Some DEV
           \<and> messages w1 = messages w @ [ErrorMessage msg]
           \<and> stateChanged w1 = stateChanged w @ [contextPath (runFolder dr)]
           \<and> processes w1 = processes w
           \<and> runs w1 = runs w"
  using assms
  by (simp add: onError_def devStatusOf_def setState_def fireStateChanged_def showMessage_def)

theorem spawn_error_reverts_witness:
  "devStatusOf ''/ws/app'' startingWorld = Some DEV_STARTING
   \<and> (\<exists>w1. onError 0 ''spawn odo ENOENT'' startingWorld = Inr w1
           \<and> devStatusOf ''/ws/app'' w1 = Some DEV
           \<and> messages w1 = [ErrorMessage ''spawn odo ENOENT'']
           \<and> processes w1 = processes startingWorld
           \<and> runs w1 = runs startingWorld)"
proof -
  let ?cs = "\<lparr> devTerminal = Some \<lparr>terminalName = ''/ws/app'', shown = False, disposed = False\<rparr>,
              devProcess = None, devStatus = Some DEV_STARTING, contextValue = None,
              devProcessStopRequest = None, debugStatus = None, deployStatus = None,
              runOn = None \<rparr>"
  let ?dr = "\<lparr> runFolder = appFolder, runRunOn = None, runDevProcess = Some 0,
                 runSpawnPending = False,
                 outputEmitter = [''Starting odo dev'' @ [CHR 0x0D, CHR 0x0A]] \<rparr>"
  have h1: "closureEnv 0 startingWorld = Some (?dr, ?cs)"
    by (simp add: startingWorld_eq closureEnv_def heapGet_def appFolder_def)
  have h2: "runDevProcess ?dr = Some 0" by simp
  have s: "devStatusOf ''/ws/app'' startingWorld = Some DEV_STARTING"
    by (simp add: startingWorld_eq devStatusOf_def)
  have m: "messages startingWorld = []"
    by (simp add: startingWorld_eq)
  from spawn_error_reverts [OF h1 h2, of "''spawn odo ENOENT''"] s m
  show ?thesis by (auto simp: appFolder_def)
qed

subsection \<open>Standard error after SIGABRT\<close>

text \<open>
  Claim C9, as the code has it. While the session holds a stop request that reports that
  \<^verbatim>\<open>SIGABRT\<close> was sent, a chunk of standard error changes nothing (it is not written to the
  terminal), and a chunk of standard output is still written to the terminal, with its line
  ends converted.
\<close>

theorem stderr_dropped_after_sigabrt:
  assumes "closureEnv r w = Some (dr, cs)"
    and "runDevProcess dr = Some p"
    and "devProcessStopRequest cs = Some sr"
    and "heapGet (stopRequests w) sr = Some q"
    and "sigAbortSent q"
  shows "onStderr r chunk w = Inr w
         \<and> (\<exists>w1. onStdout r chunk w = Inr w1
               \<and> heapGet (runs w1) r
                   = Some (dr\<lparr>outputEmitter := outputEmitter dr @ [replaceAll_nl chunk]\<rparr>))"
proof -
  from assms(1) have r: "r < length (runs w)" "runs w ! r = dr"
    by (auto simp: closureEnv_def heapGet_def split: option.splits if_splits)
  from assms(4) have sr: "sr < length (stopRequests w)" "stopRequests w ! sr = q"
    by (simp_all add: heapGet_def split: if_splits)
  have a: "onStderr r chunk w = Inr w"
    using assms sr by (simp add: onStderr_def isSigabrtSent_def Let_def)
  have b: "\<exists>w1. onStdout r chunk w = Inr w1
               \<and> heapGet (runs w1) r
                   = Some (dr\<lparr>outputEmitter := outputEmitter dr @ [replaceAll_nl chunk]\<rparr>)"
    using assms(1,2) r
    by (simp add: onStdout_def emit_def heapGet_def setState_def fireStateChanged_def Let_def)
  from a b show ?thesis by blast
qed

theorem stderr_dropped_after_sigabrt_witness:
  "onStderr 0 ''aborting'' forcedWorld = Inr forcedWorld
   \<and> (\<exists>w1. onStdout 0 (''bye'' @ [CHR 0x0A]) forcedWorld = Inr w1
         \<and> map outputEmitter (runs w1)
             = [[''Starting odo dev'' @ [CHR 0x0D, CHR 0x0A], ''^C'' @ [CHR 0x0D, CHR 0x0A],
                 ''bye'' @ [CHR 0x0D, CHR 0x0A]]])"
proof -
  let ?cs = "\<lparr> devTerminal = Some \<lparr>terminalName = ''/ws/app'', shown = True, disposed = False\<rparr>,
              devProcess = Some 0, devStatus = Some DEV_STOPPING, contextValue = None,
              devProcessStopRequest = Some 0, debugStatus = None, deployStatus = None,
              runOn = None \<rparr>"
  let ?dr = "\<lparr> runFolder = appFolder, runRunOn = None, runDevProcess = Some 0,
                 runSpawnPending = False,
                 outputEmitter = [''Starting odo dev'' @ [CHR 0x0D, CHR 0x0A],
                                  ''^C'' @ [CHR 0x0D, CHR 0x0A]] \<rparr>"
  let ?q = "\<lparr>sigAbortSent = True, devCleaningTimeout = Some 0, stopDevProcess = 0\<rparr>"
  have h1: "closureEnv 0 forcedWorld = Some (?dr, ?cs)"
    by (simp add: forcedWorld_eq expiredWorld_eq stoppingWorld_eq closureEnv_def heapGet_def appFolder_def)
  have h2: "runDevProcess ?dr = Some 0" by simp
  have h3: "devProcessStopRequest ?cs = Some 0" by simp
  have h4: "heapGet (stopRequests forcedWorld) 0 = Some ?q"
    by (simp add: forcedWorld_eq expiredWorld_eq stoppingWorld_eq heapGet_def)
  have h5: "sigAbortSent ?q" by simp
  have l: "length (runs w1) = 1" if "onStdout 0 (''bye'' @ [CHR 0x0A]) forcedWorld = Inr w1" for w1
    using that h1
    by (auto simp: onStdout_def emit_def forcedWorld_eq expiredWorld_eq stoppingWorld_eq Let_def)
  from stderr_dropped_after_sigabrt [OF h1 h2 h3 h4 h5, of "''aborting''"]
    stderr_dropped_after_sigabrt [OF h1 h2 h3 h4 h5, of "''bye'' @ [CHR 0x0A]"]
  obtain w1 where w1: "onStderr 0 ''aborting'' forcedWorld = Inr forcedWorld"
      "onStdout 0 (''bye'' @ [CHR 0x0A]) forcedWorld = Inr w1"
      "heapGet (runs w1) 0 = Some (?dr\<lparr>outputEmitter := outputEmitter ?dr @ [replaceAll_nl (''bye'' @ [CHR 0x0A])]\<rparr>)"
    by blast
  from l [OF w1(2)] w1(3) have "map outputEmitter (runs w1)
             = [[''Starting odo dev'' @ [CHR 0x0D, CHR 0x0A], ''^C'' @ [CHR 0x0D, CHR 0x0A],
                 ''bye'' @ [CHR 0x0D, CHR 0x0A]]]"
    by (cases "runs w1") (auto simp: heapGet_def)
  with w1(1,2) show ?thesis by (intro conjI exI [of _ w1])
qed

text \<open>
  The claim as stated discards every chunk of standard error once \<^verbatim>\<open>SIGABRT\<close> was sent. The
  handler asks the stop request that the session holds, and the \<^verbatim>\<open>exit\<close> handler takes it
  from the session: in \<open>forcedWorld\<close>, after the process has exited, the stop request still
  reports that \<^verbatim>\<open>SIGABRT\<close> was sent, the session holds no stop request, and a chunk of
  standard error is written to the terminal.
\<close>

theorem stderr_after_exit_counterexample:
  "reachable (dispatch [OnExit 0 None] forcedWorld)
   \<and> map sigAbortSent (stopRequests forcedWorld) = [True]
   \<and> map sigAbortSent (stopRequests (dispatch [OnExit 0 None] forcedWorld)) = [True]
   \<and> stopRequestOf ''/ws/app'' (dispatch [OnExit 0 None] forcedWorld) = None
   \<and> map outputEmitter (runs (dispatch [OnExit 0 None, OnStderr 0 ''dump''] forcedWorld))
       = [[''Starting odo dev'' @ [CHR 0x0D, CHR 0x0A],
           ''^C'' @ [CHR 0x0D, CHR 0x0A],
           [CHR 0x0D, CHR 0x0A] @ ''Press any key to close this terminal'' @ [CHR 0x0D, CHR 0x0A],
           [CHR 0x1B] @ ''[31mdump'' @ [CHR 0x1B] @ ''[0m'']]"
proof -
  have "reachable forcedWorld"
    unfolding forcedWorld_def expiredWorld_def
    by (intro reachable_dispatch reachable_stoppingWorld)
  then have r: "reachable (dispatch [OnExit 0 None] forcedWorld)"
    by (rule reachable_dispatch)
  have e: "map sigAbortSent (stopRequests forcedWorld) = [True]
   \<and> map sigAbortSent (stopRequests (dispatch [OnExit 0 None] forcedWorld)) = [True]
   \<and> stopRequestOf ''/ws/app'' (dispatch [OnExit 0 None] forcedWorld) = None
   \<and> map outputEmitter (runs (dispatch [OnExit 0 None, OnStderr 0 ''dump''] forcedWorld))
       = [[''Starting odo dev'' @ [CHR 0x0D, CHR 0x0A],
           ''^C'' @ [CHR 0x0D, CHR 0x0A],
           [CHR 0x0D, CHR 0x0A] @ ''Press any key to close this terminal'' @ [CHR 0x0D, CHR 0x0A],
           [CHR 0x1B] @ ''[31mdump'' @ [CHR 0x1B] @ ''[0m'']]"
    by (simp add: forcedWorld_eq expiredWorld_eq stoppingWorld_eq appFolder_def stopRequestOf_def
          onExit_def onStderr_def closureEnv_def heapGet_def dispose_def emit_def setState_def
          fireStateChanged_def Let_def)
  from r e show ?thesis by (intro conjI) simp_all
qed

subsection \<open>The escalation prompt after the stop request is disposed\<close>

text \<open>
  Claim C10. When the warning is answered after \<^verbatim>\<open>dispose\<close> has run (the closure's
  \<^verbatim>\<open>devCleaningTimeout\<close> is \<^verbatim>\<open>undefined\<close>, as after the process has exited), the answer has no
  effect whatever it is: the only change to the world is the information message that the
  warning has expired. No timer is scheduled again and no process is signalled.
\<close>

theorem prompt_after_dispose:
  assumes "heapGet (stopRequests w) sr = Some q"
    and "devCleaningTimeout q = None"
  shows "promptAnswered sr action w =
           Inr (w\<lparr>messages := messages w @
                  [InformationMessage
                     ''The warning message has expired and requested action cannot be executed.'']\<rparr>)"
  using assms by (simp add: promptAnswered_def showMessage_def)

theorem prompt_after_dispose_witness:
  "heapGet (stopRequests exitedWorld) 0
     = Some \<lparr>sigAbortSent = False, devCleaningTimeout = None, stopDevProcess = 0\<rparr>
   \<and> promptAnswered 0 (Some ''Force exit'') exitedWorld =
       Inr (exitedWorld\<lparr>messages := messages exitedWorld @
              [InformationMessage
                 ''The warning message has expired and requested action cannot be executed.'']\<rparr>)
   \<and> promptAnswered 0 (Some ''Keep waiting'') exitedWorld =
       Inr (exitedWorld\<lparr>messages := messages exitedWorld @
              [InformationMessage
                 ''The warning message has expired and requested action cannot be executed.'']\<rparr>)"
proof -
  have h: "heapGet (stopRequests exitedWorld) 0
             = Some \<lparr>sigAbortSent = False, devCleaningTimeout = None, stopDevProcess = 0\<rparr>"
    by (simp add: exitedWorld_eq heapGet_def)
  have d: "devCleaningTimeout \<lparr>sigAbortSent = False, devCleaningTimeout = None, stopDevProcess = 0\<rparr> = None"
    by simp
  show ?thesis
    using h prompt_after_dispose [OF h d, of "Some ''Force exit''"]
      prompt_after_dispose [OF h d, of "Some ''Keep waiting''"]
    by simp
qed

end
